theory Spec2Isabelle
  imports Main
begin

section \<open>The submit/evaluate transaction command\<close>

text \<open>
  The command \<^verbatim>\<open>submitTransaction\<close> of
  \<^verbatim>\<open>src/extension/commands/submitTransaction.ts\<close> talks to four collaborators that
  are not part of the file: the prompts of \<^verbatim>\<open>UserInputUtil\<close>, the connection held by
  \<^verbatim>\<open>FabricConnectionManager\<close>, the output adapter and the telemetry reporter. The
  model runs the command against an environment that answers every call the command
  makes, and returns the calls made, in order, with the way the command ended.
\<close>

subsection \<open>Values\<close>

text \<open>The \<^verbatim>\<open>message\<close> of a thrown \<^verbatim>\<open>Error\<close>.\<close>

type_synonym js_error = string

datatype log_type = INFO | SUCCESS | ERROR

text \<open>
  The command never looks inside a parsed JSON value or a \<^verbatim>\<open>Buffer\<close>: \<open>'v\<close> is
  the type of JSON values and \<open>'b\<close> the type of buffers. While the transient data
  object is rewritten in place it holds both.
\<close>

datatype ('v, 'b) tvalue = Parsed 'v | Buffer 'b

datatype 'a quick_pick_item = QuickPickItem (label: string) (data: 'a)

datatype contract_data = ContractData (contract_name: string) (channel: string) (version: string)

datatype transaction_data = TransactionData (transaction_name: string) (contract: string)

datatype peer_info = PeerInfo (peer_name: string) (mspID: string)

text \<open>
  The two tree items the command accepts. \<open>channels\<close> holds the labels of the channel
  tree items of an instantiated smart contract.
\<close>

datatype tree_item =
    TransactionTreeItem (chaincodeName: string) (tx_name: string) (tx_channelName: string)
      (contractName: string)
  | InstantiatedTreeItem (inst_name: string) (channels: "string list")

text \<open>
  The eight arguments of \<^verbatim>\<open>IFabricClientConnection.submitTransaction\<close>, in the order
  of the call.
\<close>

datatype ('v, 'b) sdk_call =
  SubmitTransactionCall
    (arg_contract: "string option")
    (arg_txName: string)
    (arg_channel: "string option")
    (arg_args: "'v list")
    (arg_namespace: string)
    (arg_transientData: "(string \<times> ('v, 'b) tvalue) list option")
    (arg_evaluateOnly: bool)
    (arg_peerTargets: "string list")

text \<open>
  What the delegated call throws. The \<^verbatim>\<open>catch\<close> variable has no type, so every value
  can arrive, and the handler reads \<^verbatim>\<open>error.message\<close>, tests \<^verbatim>\<open>error.endorsements\<close>,
  iterates over it and reads the \<^verbatim>\<open>message\<close> of every element. The model keeps what
  these reads give:
  \<^item> \<open>Unreadable\<close> is a value whose \<^verbatim>\<open>message\<close> cannot be read: \<^verbatim>\<open>null\<close> or
    \<^verbatim>\<open>undefined\<close>, on which the read throws a \<^verbatim>\<open>TypeError\<close>;
  \<^item> \<open>Thrown m ends\<close> is any other value: \<open>m\<close> is the text of its \<^verbatim>\<open>message\<close> in a
    template literal (\<^verbatim>\<open>undefined\<close> when it has none), and \<open>ends\<close> is its
    \<^verbatim>\<open>endorsements\<close>: absent or falsy, present but not iterable, or a list of elements;
  \<^item> an element is \<open>BadEndorsement\<close> when it is \<^verbatim>\<open>null\<close> or \<^verbatim>\<open>undefined\<close>, and
    \<open>Endorsement m\<close>, with the text of its \<^verbatim>\<open>message\<close>, otherwise.
\<close>

datatype endorsement = BadEndorsement | Endorsement string

datatype endorsements = NoEndorsements | NotIterable | Endorsements "endorsement list"

datatype thrown = Unreadable | Thrown string endorsements

subsection \<open>The environment\<close>

text \<open>
  \<^item> \<open>JSON_parse_array\<close> and \<open>JSON_parse_object\<close> are \<^verbatim>\<open>JSON.parse\<close> on a text that
    starts with \<^verbatim>\<open>[\<close>, respectively \<^verbatim>\<open>{\<close>: the command parses no other text, and on
    such a text the result is an array, respectively an object (its entries in the order
    of \<^verbatim>\<open>Object.keys\<close>), or an error.
  \<^item> \<open>Buffer_from\<close> is \<^verbatim>\<open>Buffer.from\<close>, which throws on a value it cannot convert.
  \<^item> \<open>ToString\<close> is the text of an array element in a template literal.
  \<^item> \<open>DEFAULT\<close>, \<open>CUSTOM\<close> and \<open>LOCAL_FABRIC\<close> are the constants of
    \<^verbatim>\<open>UserInputUtil\<close> and \<^verbatim>\<open>FabricRuntimeUtil\<close>.
  \<^item> The \<open>show...\<close> fields are the prompts of \<^verbatim>\<open>UserInputUtil\<close>; \<open>None\<close> is
    \<^verbatim>\<open>undefined\<close>, the answer of a prompt the user dismissed.
  \<^item> \<open>getConnection\<close> tells whether the connection manager holds a connection when the
    command starts, \<open>CONNECT_TO_GATEWAY\<close> whether it holds one after the connect
    command has run.
  \<^item> \<open>getGatewayRegistryEntry\<close> is the name of the gateway registry entry.
  \<^item> \<open>getChannelPeersInfo\<close> and \<open>conn_submitTransaction\<close> are the two methods of the
    connection that the command calls.
\<close>

record ('v, 'b) env =
  JSON_parse_array :: "string \<Rightarrow> js_error + 'v list"
  JSON_parse_object :: "string \<Rightarrow> js_error + (string \<times> 'v) list"
  Buffer_from :: "('v, 'b) tvalue \<Rightarrow> js_error + 'b"
  ToString :: "'v \<Rightarrow> string"
  DEFAULT :: string
  CUSTOM :: string
  LOCAL_FABRIC :: string
  showClientInstantiatedSmartContractsQuickPick ::
    "string \<Rightarrow> contract_data quick_pick_item option"
  showTransactionQuickPick ::
    "string \<Rightarrow> string option \<Rightarrow> string option \<Rightarrow> transaction_data quick_pick_item option"
  showInputBox :: "string \<Rightarrow> string \<Rightarrow> string option"
  showQuickPick :: "string \<Rightarrow> string list \<Rightarrow> string option"
  showChannelPeersQuickPick :: "peer_info list \<Rightarrow> string quick_pick_item list option"
  getConnection :: bool
  CONNECT_TO_GATEWAY :: bool
  getGatewayRegistryEntry :: string
  getChannelPeersInfo :: "string option \<Rightarrow> js_error + peer_info list"
  conn_submitTransaction :: "('v, 'b) sdk_call \<Rightarrow> thrown + string option"

subsection \<open>Calls made and outcomes\<close>

datatype ('v, 'b) event =
    Log log_type "string option" "string option"
  | OutputShow
  | ExecuteCommand_CONNECT_TO_GATEWAY
  | ShowClientInstantiatedSmartContractsQuickPick string
  | ShowTransactionQuickPick string "string option" "string option"
  | ShowInputBox string string
  | GetChannelPeersInfo "string option"
  | ShowQuickPick string "string list"
  | ShowChannelPeersQuickPick "peer_info list"
  | WithProgress string
  | ProgressReport string
  | DockerOutputShow
  | SubmitTransaction "('v, 'b) sdk_call"
  | SendTelemetryEvent string

text \<open>
  The command returns, or an exception leaves it: a \<^verbatim>\<open>TypeError\<close> of the runtime (a
  property read on \<^verbatim>\<open>undefined\<close>), or the rejection of an awaited call outside every
  \<^verbatim>\<open>try\<close>.
\<close>

datatype outcome = Returned | TypeError | Rejected js_error

type_synonym ('v, 'b) run = "('v, 'b) event list \<times> outcome"

definition emit :: "('v, 'b) event list \<Rightarrow> ('v, 'b) run \<Rightarrow> ('v, 'b) run" where
  "emit es r = (es @ fst r, snd r)"

subsection \<open>Strings\<close>

definition startsWith :: "string \<Rightarrow> string \<Rightarrow> bool" where
  "startsWith s p = (take (length p) s = p)"

definition endsWith :: "string \<Rightarrow> string \<Rightarrow> bool" where
  "endsWith s p = (length p \<le> length s \<and> drop (length s - length p) s = p)"

text \<open>An array in a template literal: its elements, separated by commas.\<close>

fun array_toString :: "string list \<Rightarrow> string" where
  "array_toString [] = []"
| "array_toString [x] = x"
| "array_toString (x # y # ys) = x @ '','' @ array_toString (y # ys)"

text \<open>A possibly undefined string in a template literal.\<close>

definition template :: "string option \<Rightarrow> string" where
  "template s = (case s of None \<Rightarrow> ''undefined'' | Some t \<Rightarrow> t)"

text \<open>\<^verbatim>\<open>!s\<close> for a possibly undefined string.\<close>

definition falsy :: "string option \<Rightarrow> bool" where
  "falsy s = (s = None \<or> s = Some [])"

definition action :: "bool \<Rightarrow> string" where
  "action evaluate = (if evaluate then ''evaluate'' else ''submit'')"

definition actioning :: "bool \<Rightarrow> string" where
  "actioning evaluate = (if evaluate then ''evaluating'' else ''submitting'')"

definition actioned :: "bool \<Rightarrow> string" where
  "actioned evaluate = (if evaluate then ''evaluated'' else ''submitted'')"

definition args_prompt :: string where
  \<open>args_prompt =
     ''optional: What are the arguments to the transaction, (e.g. ["arg1", "arg2"])''\<close>

definition transient_prompt :: string where
  \<open>transient_prompt =
     ''optional: What is the transient data for the transaction, e.g. {"key": "value"}''\<close>

definition args_format_error :: string where
  \<open>args_format_error =
     ''transaction arguments should be in the format ["arg1", {"key" : "value"}]''\<close>

definition transient_format_error :: string where
  \<open>transient_format_error = ''transient data should be in the format {"key": "value"}''\<close>

definition policy_prompt :: string where
  "policy_prompt = ''Select a peer-targeting policy for this transaction''"

subsection \<open>The command, from its last step to its first\<close>

text \<open>The target of the transaction, as the first step resolves it.\<close>

record target =
  smartContract :: "string option"
  transactionName :: string
  channelName :: "string option"
  namespace :: string

text \<open>Lines 185 to 195: the telemetry event and the report of a result.\<close>

definition report_success :: "bool \<Rightarrow> target \<Rightarrow> string option \<Rightarrow> ('v, 'b) event list" where
  "report_success evaluate t result =
     [SendTelemetryEvent (action evaluate @ '' transaction''),
      Log SUCCESS (Some (''Successfully '' @ actioned evaluate @ '' transaction''))
        (Some (case result of
                 None \<Rightarrow> ''No value returned from '' @ transactionName t
               | Some r \<Rightarrow> ''Returned value from '' @ transactionName t @ '': '' @ r)),
      OutputShow]"

text \<open>
  Lines 196 to 203: the handler. A \<^verbatim>\<open>TypeError\<close> thrown by one of its reads leaves
  the handler, the progress notification and the command, after the lines logged so
  far.
\<close>

fun endorsement_lines :: "endorsement list \<Rightarrow> ('v, 'b) run" where
  "endorsement_lines [] = ([], Returned)"
| "endorsement_lines (BadEndorsement # _) = ([], TypeError)"
| "endorsement_lines (Endorsement m # es) =
     emit [Log ERROR (Some (''Endorsement failed with: '' @ m)) None] (endorsement_lines es)"

definition catch_block :: "bool \<Rightarrow> thrown \<Rightarrow> ('v, 'b) run" where
  "catch_block evaluate error =
     (case error of
        Unreadable \<Rightarrow> ([], TypeError)
      | Thrown m ends \<Rightarrow>
          emit [Log ERROR (Some (''Error '' @ actioning evaluate @ '' transaction: '' @ m)) None]
            (case ends of
               NoEndorsements \<Rightarrow> ([], Returned)
             | NotIterable \<Rightarrow> ([], TypeError)
             | Endorsements es \<Rightarrow> endorsement_lines es))"

text \<open>Lines 185 to 203: what follows the awaited call, by its answer.\<close>

definition settle :: "bool \<Rightarrow> target \<Rightarrow> thrown + string option \<Rightarrow> ('v, 'b) run" where
  "settle evaluate t answer =
     (case answer of
        Inr result \<Rightarrow> (report_success evaluate t result, Returned)
      | Inl error \<Rightarrow> catch_block evaluate error)"

text \<open>
  Lines 158 to 183: the progress notification and the delegated call. The \<^verbatim>\<open>try\<close>
  hands what the call throws to the handler.
\<close>

definition call_stage ::
  "('v, 'b) env \<Rightarrow> bool \<Rightarrow> target \<Rightarrow> 'v list \<Rightarrow> (string \<times> ('v, 'b) tvalue) list option \<Rightarrow>
   string list \<Rightarrow> string \<Rightarrow> ('v, 'b) run" where
  "call_stage e evaluate t args transientData peerTargetNames peerTargetMessage =
     (let call =
        (if evaluate
         then SubmitTransactionCall (smartContract t) (transactionName t) (channelName t) args
                (namespace t) transientData True peerTargetNames
         else SubmitTransactionCall (smartContract t) (transactionName t) (channelName t) args
                (namespace t) transientData False peerTargetNames)
      in emit
        ([WithProgress ''IBM Blockchain Platform Extension'',
          ProgressReport (actioning evaluate @ '' transaction '' @ transactionName t),
          Log INFO None
            (Some (if length args = 0
               then actioning evaluate @ '' transaction '' @ transactionName t
                 @ '' with no args on channel '' @ template (channelName t) @ peerTargetMessage
               else actioning evaluate @ '' transaction '' @ transactionName t
                 @ '' with args '' @ array_toString (map (ToString e) args)
                 @ '' on channel '' @ template (channelName t) @ peerTargetMessage))]
         @ (if getGatewayRegistryEntry e = LOCAL_FABRIC e then [DockerOutputShow] else [])
         @ [SubmitTransaction call])
        (settle evaluate t (conn_submitTransaction e call)))"

text \<open>Lines 138 to 156: the peers of a custom policy.\<close>

definition targets_stage ::
  "('v, 'b) env \<Rightarrow> bool \<Rightarrow> target \<Rightarrow> 'v list \<Rightarrow> (string \<times> ('v, 'b) tvalue) list option \<Rightarrow>
   peer_info list \<Rightarrow> string option \<Rightarrow> ('v, 'b) run" where
  "targets_stage e evaluate t args transientData channelPeerInfo selectPeers =
     (if falsy selectPeers then ([], Returned)
      else if selectPeers = Some (CUSTOM e) then
        emit [ShowChannelPeersQuickPick channelPeerInfo]
          (case showChannelPeersQuickPick e channelPeerInfo of
             None \<Rightarrow> ([], Returned)
           | Some peerTargets \<Rightarrow>
               if length peerTargets = 0 then ([], Returned)
               else call_stage e evaluate t args transientData (map data peerTargets)
                      ('' to peers '' @ array_toString (map data peerTargets)))
      else call_stage e evaluate t args transientData [] [])"

text \<open>
  Lines 124 to 136: the peers of the channel and the peer-targeting policy. The
  connection is read without a check, and the call is outside every \<^verbatim>\<open>try\<close>.
\<close>

definition peers_stage ::
  "('v, 'b) env \<Rightarrow> bool \<Rightarrow> bool \<Rightarrow> target \<Rightarrow> 'v list \<Rightarrow>
   (string \<times> ('v, 'b) tvalue) list option \<Rightarrow> ('v, 'b) run" where
  "peers_stage e connection evaluate t args transientData =
     (if \<not> connection then ([], TypeError)
      else emit [GetChannelPeersInfo (channelName t)]
        (case getChannelPeersInfo e (channelName t) of
           Inl error \<Rightarrow> ([], Rejected error)
         | Inr channelPeerInfo \<Rightarrow>
             if length channelPeerInfo = 0 then
               ([Log ERROR (Some ''No channel peers available to target'') None], Returned)
             else if length channelPeerInfo = 1 then
               targets_stage e evaluate t args transientData channelPeerInfo (Some (DEFAULT e))
             else
               emit [ShowQuickPick policy_prompt [DEFAULT e, CUSTOM e]]
                 (targets_stage e evaluate t args transientData channelPeerInfo
                    (showQuickPick e policy_prompt [DEFAULT e, CUSTOM e]))))"

text \<open>
  Lines 113 to 117: every key of the parsed object, in turn, gets the buffer made from
  its value. A key the object does not hold reads as \<^verbatim>\<open>undefined\<close>, which
  \<^verbatim>\<open>Buffer.from\<close> refuses.
\<close>

definition assign :: "string \<Rightarrow> 'a \<Rightarrow> (string \<times> 'a) list \<Rightarrow> (string \<times> 'a) list" where
  "assign key x obj = map (\<lambda>(k, y). if k = key then (k, x) else (k, y)) obj"

fun bufferise ::
  "('v, 'b) env \<Rightarrow> string list \<Rightarrow> (string \<times> ('v, 'b) tvalue) list \<Rightarrow>
   js_error + (string \<times> ('v, 'b) tvalue) list" where
  "bufferise e [] transientData = Inr transientData"
| "bufferise e (key # keys) transientData =
     (case map_of transientData key of
        None \<Rightarrow> Inl ''The first argument must not be undefined''
      | Some x \<Rightarrow>
          (case Buffer_from e x of
             Inl error \<Rightarrow> Inl error
           | Inr b \<Rightarrow> bufferise e keys (assign key (Buffer b) transientData)))"

text \<open>Lines 101 to 122: the transient data.\<close>

definition transient_stage ::
  "('v, 'b) env \<Rightarrow> bool \<Rightarrow> bool \<Rightarrow> target \<Rightarrow> 'v list \<Rightarrow> ('v, 'b) run" where
  "transient_stage e connection evaluate t args =
     emit [ShowInputBox transient_prompt ''{}'']
       (case showInputBox e transient_prompt ''{}'' of
          None \<Rightarrow> ([], Returned)
        | Some transientDataString \<Rightarrow>
            if transientDataString \<noteq> [] \<and> transientDataString \<noteq> ''{}'' then
              (case
                 (if \<not> startsWith transientDataString ''{'' \<or> \<not> endsWith transientDataString ''}''
                  then Inl transient_format_error
                  else case JSON_parse_object e transientDataString of
                         Inl error \<Rightarrow> Inl error
                       | Inr parsed \<Rightarrow>
                           bufferise e (map fst parsed) (map (\<lambda>(k, v). (k, Parsed v)) parsed))
               of
                 Inl error \<Rightarrow>
                   ([Log ERROR (Some (''Error with transaction transient data: '' @ error)) None],
                    Returned)
               | Inr transientData \<Rightarrow>
                   peers_stage e connection evaluate t args (Some transientData))
            else peers_stage e connection evaluate t args None)"

text \<open>Lines 83 to 99: the arguments.\<close>

definition args_stage :: "('v, 'b) env \<Rightarrow> bool \<Rightarrow> bool \<Rightarrow> target \<Rightarrow> ('v, 'b) run" where
  "args_stage e connection evaluate t =
     emit [ShowInputBox args_prompt ''[]'']
       (case showInputBox e args_prompt ''[]'' of
          None \<Rightarrow> ([], Returned)
        | Some argsString \<Rightarrow>
            if argsString = [] then transient_stage e connection evaluate t []
            else
              (case
                 (if \<not> startsWith argsString ''['' \<or> \<not> endsWith argsString '']''
                  then Inl args_format_error
                  else JSON_parse_array e argsString)
               of
                 Inl error \<Rightarrow>
                   ([Log ERROR (Some (''Error with transaction arguments: '' @ error)) None],
                    Returned)
               | Inr args \<Rightarrow> transient_stage e connection evaluate t args))"

text \<open>Lines 74 to 80: the transaction, picked by the user.\<close>

definition transaction_stage ::
  "('v, 'b) env \<Rightarrow> bool \<Rightarrow> bool \<Rightarrow> string option \<Rightarrow> string option \<Rightarrow> ('v, 'b) run" where
  "transaction_stage e connection evaluate channelName' smartContract' =
     emit [ShowTransactionQuickPick (''Choose a transaction to '' @ action evaluate)
             smartContract' channelName']
       (case showTransactionQuickPick e (''Choose a transaction to '' @ action evaluate)
               smartContract' channelName' of
          None \<Rightarrow> ([], Returned)
        | Some chosenTransaction \<Rightarrow>
            args_stage e connection evaluate
              \<lparr>smartContract = smartContract',
               transactionName = transaction_name (data chosenTransaction),
               channelName = channelName',
               namespace = contract (data chosenTransaction)\<rparr>)"

text \<open>Lines 62 to 68: the smart contract, picked by the user.\<close>

definition contract_stage :: "('v, 'b) env \<Rightarrow> bool \<Rightarrow> ('v, 'b) run" where
  "contract_stage e evaluate =
     emit [ShowClientInstantiatedSmartContractsQuickPick
             (''Choose a smart contract to '' @ action evaluate @ '' a transaction from'')]
       (case showClientInstantiatedSmartContractsQuickPick e
               (''Choose a smart contract to '' @ action evaluate @ '' a transaction from'') of
          None \<Rightarrow> ([], Returned)
        | Some chosenSmartContract \<Rightarrow>
            transaction_stage e True evaluate
              (Some (channel (data chosenSmartContract)))
              (Some (contract_name (data chosenSmartContract))))"

text \<open>
  Lines 29 to 81: the command. An instantiated tree item with no channel makes the
  read of \<^verbatim>\<open>channels[0].label\<close> throw.
\<close>

definition submitTransaction ::
  "('v, 'b) env \<Rightarrow> bool \<Rightarrow> tree_item option \<Rightarrow> string option \<Rightarrow> string option \<Rightarrow> ('v, 'b) run"
  where
  "submitTransaction e evaluate treeItem channelName' smartContract' =
     emit [Log INFO None (Some (action evaluate @ ''Transaction''))]
       (case treeItem of
          Some (TransactionTreeItem chaincode name' channel' contract') \<Rightarrow>
            args_stage e (getConnection e) evaluate
              \<lparr>smartContract = Some chaincode, transactionName = name',
               channelName = Some channel', namespace = contract'\<rparr>
        | _ \<Rightarrow>
            if treeItem = None \<and> falsy channelName' \<and> falsy smartContract' then
              (if \<not> getConnection e then
                 emit [ExecuteCommand_CONNECT_TO_GATEWAY]
                   (if \<not> CONNECT_TO_GATEWAY e then ([], Returned)
                    else contract_stage e evaluate)
               else contract_stage e evaluate)
            else
              (case treeItem of
                 Some (InstantiatedTreeItem name' channels') \<Rightarrow>
                   (case channels' of
                      [] \<Rightarrow> ([], TypeError)
                    | label' # _ \<Rightarrow>
                        transaction_stage e (getConnection e) evaluate (Some label') (Some name'))
               | _ \<Rightarrow>
                   transaction_stage e (getConnection e) evaluate channelName' smartContract'))"

subsection \<open>Reading a run\<close>

text \<open>The delegated calls of a run and the telemetry events it sends, in order.\<close>

fun calls :: "('v, 'b) event list \<Rightarrow> ('v, 'b) sdk_call list" where
  "calls [] = []"
| "calls (SubmitTransaction c # es) = c # calls es"
| "calls (_ # es) = calls es"

fun telemetry :: "('v, 'b) event list \<Rightarrow> string list" where
  "telemetry [] = []"
| "telemetry (SendTelemetryEvent name' # es) = name' # telemetry es"
| "telemetry (_ # es) = telemetry es"

text \<open>
  The steps of the command, and the step a call belongs to. A report is a success or
  error line of the logger that carries a message. The progress notification, the
  informational log lines, the telemetry event and the two \<^verbatim>\<open>show()\<close> calls belong to
  no step.
\<close>

datatype step =
    ResolveTarget
  | PromptArguments
  | PromptTransientData
  | ResolvePeerTargeting
  | DelegatedCall
  | Report

fun step_of :: "('v, 'b) event \<Rightarrow> step option" where
  "step_of ExecuteCommand_CONNECT_TO_GATEWAY = Some ResolveTarget"
| "step_of (ShowClientInstantiatedSmartContractsQuickPick _) = Some ResolveTarget"
| "step_of (ShowTransactionQuickPick _ _ _) = Some ResolveTarget"
| "step_of (ShowInputBox prompt _) =
     (if prompt = args_prompt then Some PromptArguments
      else if prompt = transient_prompt then Some PromptTransientData
      else None)"
| "step_of (GetChannelPeersInfo _) = Some ResolvePeerTargeting"
| "step_of (ShowQuickPick _ _) = Some ResolvePeerTargeting"
| "step_of (ShowChannelPeersQuickPick _) = Some ResolvePeerTargeting"
| "step_of (SubmitTransaction _) = Some DelegatedCall"
| "step_of (Log SUCCESS (Some _) _) = Some Report"
| "step_of (Log ERROR (Some _) _) = Some Report"
| "step_of _ = None"

definition steps :: "('v, 'b) event list \<Rightarrow> step list" where
  "steps es = List.map_filter step_of es"

section \<open>The functional test template\<close>

text \<open>
  Lines 75 to 102 of the template (\<^verbatim>\<open>src/unnamed/part_000\<close>) write, for one
  transaction, the declarations of its parameters and the \<^verbatim>\<open>args\<close> list of the
  generated test. A parameter has a name and may have a schema; a schema may have a
  type.
\<close>

record schema =
  schema_type :: "string option"

record parameter =
  name :: string
  schema :: "schema option"

record transaction =
  transaction_label :: string
  parameters :: "parameter list option"

text \<open>
  The stub of one parameter (lines 79 to 96): what is pushed on \<^verbatim>\<open>params\<close> and the
  lines written. \<open>esc\<close> is the escaping that the output tag of the template engine
  applies; \<^verbatim>\<open>replace\<close> with a string pattern removes the first double quote of the
  name.
\<close>

definition parameter_stub :: "(string \<Rightarrow> string) \<Rightarrow> parameter \<Rightarrow> string list \<times> string list" where
  \<open>parameter_stub esc p =
     (let n = remove1 (CHR 0x22) (name p) in
      if (case schema p of
            None \<Rightarrow> False
          | Some s \<Rightarrow> (case schema_type s of None \<Rightarrow> False | Some t \<Rightarrow> t \<noteq> []))
      then
        (let t = the (schema_type (the (schema p))) in
         if t = ''string'' then
           ([ '' '' @ n ], [ ''            const '' @ esc n @ '' = 'EXAMPLE';'' ])
         else if t = ''number'' then
           ([ '' '' @ n @ ''.toString()'' ], [ ''            const '' @ esc n @ '' = 0;'' ])
         else if t = ''boolean'' then
           ([ '' '' @ n @ ''.toString()'' ], [ ''            const '' @ esc n @ '' = true;'' ])
         else if t = ''array'' then
           ([ '' JSON.stringify('' @ n @ '')'' ], [ ''            const '' @ esc n @ '' = [];'' ])
         else ([], []))
      else
        ([ '' JSON.stringify('' @ n @ '')'' ], [ ''            const '' @ esc n @ '' = {};'' ]))\<close>

fun parameter_stubs :: "(string \<Rightarrow> string) \<Rightarrow> parameter list \<Rightarrow> string list \<times> string list" where
  "parameter_stubs esc [] = ([], [])"
| "parameter_stubs esc (p # ps) =
     (fst (parameter_stub esc p) @ fst (parameter_stubs esc ps),
      snd (parameter_stub esc p) @ snd (parameter_stubs esc ps))"

text \<open>The lines of the block (lines 75 to 102).\<close>

definition parameters_block :: "(string \<Rightarrow> string) \<Rightarrow> transaction \<Rightarrow> string list" where
  "parameters_block esc t =
     (if (case parameters t of None \<Rightarrow> False | Some ps \<Rightarrow> length ps > 0) then
        [''            // TODO: populate transaction parameters'']
        @ snd (parameter_stubs esc (the (parameters t)))
        @ [''            const args = [''
             @ esc (array_toString (fst (parameter_stubs esc (the (parameters t))))) @ ''];'']
      else
        [''            // TODO: Update with parameters of transaction'',
         ''            const args = [];''])"

section \<open>Runs that reach the delegated call\<close>

text \<open>
  The predicates below state, for a run that reaches the delegated call, what the
  answers of the environment were on the way there: the target that was resolved and
  where its contract and channel came from, the arguments and the transient data that
  were typed, the policy that was in effect and the peers that were targeted.
  \<open>the_call\<close> is the call the command then makes.
\<close>

definition the_call ::
  "bool \<Rightarrow> target \<Rightarrow> 'v list \<Rightarrow> (string \<times> ('v, 'b) tvalue) list option \<Rightarrow> string list \<Rightarrow>
   ('v, 'b) sdk_call" where
  "the_call evaluate t args transientData peerTargetNames =
     SubmitTransactionCall (smartContract t) (transactionName t) (channelName t) args
       (namespace t) transientData evaluate peerTargetNames"

definition policy :: "('v, 'b) env \<Rightarrow> peer_info list \<Rightarrow> string option" where
  "policy e channelPeerInfo =
     (if length channelPeerInfo = 1 then Some (DEFAULT e)
      else showQuickPick e policy_prompt [DEFAULT e, CUSTOM e])"

definition targets_ok :: "('v, 'b) env \<Rightarrow> peer_info list \<Rightarrow> string list \<Rightarrow> bool" where
  "targets_ok e channelPeerInfo peerTargetNames \<longleftrightarrow>
     \<not> falsy (policy e channelPeerInfo) \<and>
     (if policy e channelPeerInfo = Some (CUSTOM e)
      then \<exists>items. showChannelPeersQuickPick e channelPeerInfo = Some items \<and> items \<noteq> []
             \<and> peerTargetNames = map data items
      else peerTargetNames = [])"

definition transient_ok ::
  "('v, 'b) env \<Rightarrow> (string \<times> ('v, 'b) tvalue) list option \<Rightarrow> bool" where
  "transient_ok e transientData \<longleftrightarrow>
     (\<exists>s. showInputBox e transient_prompt ''{}'' = Some s \<and>
        (if s = [] \<or> s = ''{}'' then transientData = None
         else startsWith s ''{'' \<and> endsWith s ''}'' \<and>
           (\<exists>parsed rewritten. JSON_parse_object e s = Inr parsed
              \<and> bufferise e (map fst parsed) (map (\<lambda>(k, v). (k, Parsed v)) parsed) = Inr rewritten
              \<and> transientData = Some rewritten)))"

definition args_ok :: "('v, 'b) env \<Rightarrow> 'v list \<Rightarrow> bool" where
  "args_ok e args \<longleftrightarrow>
     (\<exists>s. showInputBox e args_prompt ''[]'' = Some s \<and>
        (if s = [] then args = []
         else startsWith s ''['' \<and> endsWith s '']'' \<and> JSON_parse_array e s = Inr args))"

definition picked :: "('v, 'b) env \<Rightarrow> bool \<Rightarrow> target \<Rightarrow> bool" where
  "picked e evaluate t \<longleftrightarrow>
     (\<exists>chosen. showTransactionQuickPick e (''Choose a transaction to '' @ action evaluate)
                 (smartContract t) (channelName t) = Some chosen
        \<and> transactionName t = transaction_name (data chosen)
        \<and> namespace t = contract (data chosen))"

definition resolved :: "('v, 'b) env \<Rightarrow> bool \<Rightarrow> tree_item option \<Rightarrow> target \<Rightarrow> bool" where
  "resolved e evaluate treeItem t \<longleftrightarrow>
     (case treeItem of
        Some (TransactionTreeItem chaincode name' channel' contract') \<Rightarrow>
          smartContract t = Some chaincode \<and> transactionName t = name'
          \<and> channelName t = Some channel' \<and> namespace t = contract'
      | _ \<Rightarrow> picked e evaluate t)"

definition located ::
  "('v, 'b) env \<Rightarrow> bool \<Rightarrow> tree_item option \<Rightarrow> string option \<Rightarrow> string option \<Rightarrow> target \<Rightarrow> bool"
  where
  "located e evaluate treeItem channelName' smartContract' t \<longleftrightarrow>
     (case treeItem of
        Some (TransactionTreeItem chaincode _ channel' _) \<Rightarrow>
          smartContract t = Some chaincode \<and> channelName t = Some channel'
      | Some (InstantiatedTreeItem name' channels') \<Rightarrow>
          smartContract t = Some name'
          \<and> (\<exists>label' rest. channels' = label' # rest \<and> channelName t = Some label')
      | None \<Rightarrow>
          if falsy channelName' \<and> falsy smartContract' then
            \<exists>chosen. showClientInstantiatedSmartContractsQuickPick e
                       (''Choose a smart contract to '' @ action evaluate
                        @ '' a transaction from'') = Some chosen
              \<and> smartContract t = Some (contract_name (data chosen))
              \<and> channelName t = Some (channel (data chosen))
          else smartContract t = smartContract' \<and> channelName t = channelName')"

section \<open>Example environments\<close>

text \<open>
  A gateway with one channel and one peer, a user who accepts the default of every
  prompt, and a connection that returns \<^verbatim>\<open>done\<close>. Its \<^verbatim>\<open>JSON.parse\<close> knows the
  texts that the examples type, and its buffers are the strings they are made from. The
  other environments change one answer each.
\<close>

definition example_env :: "(string, string) env" where
  \<open>example_env =
     \<lparr>JSON_parse_array =
        (\<lambda>s. if s = ''[]'' then Inr []
             else if s = ''["a1"]'' then Inr [''a1'']
             else Inl ''Unexpected token''),
      JSON_parse_object =
        (\<lambda>s. if s = ''{"k": "v"}'' then Inr [(''k'', ''v'')]
             else Inl ''Unexpected token''),
      Buffer_from = (\<lambda>x. case x of Parsed v \<Rightarrow> Inr v | Buffer b \<Rightarrow> Inr b),
      ToString = (\<lambda>v. v),
      DEFAULT = ''Default'',
      CUSTOM = ''Custom'',
      LOCAL_FABRIC = ''local_fabric'',
      showClientInstantiatedSmartContractsQuickPick =
        (\<lambda>_. Some (QuickPickItem ''assets@0.0.1''
                     (ContractData ''assets'' ''mychannel'' ''0.0.1''))),
      showTransactionQuickPick =
        (\<lambda>_ _ _. Some (QuickPickItem ''createAsset''
                         (TransactionData ''createAsset'' ''AssetContract''))),
      showInputBox = (\<lambda>_ d. Some d),
      showQuickPick = (\<lambda>_ _. Some ''Default''),
      showChannelPeersQuickPick =
        (\<lambda>ps. Some (map (\<lambda>p. QuickPickItem (peer_name p) (peer_name p)) ps)),
      getConnection = True,
      CONNECT_TO_GATEWAY = True,
      getGatewayRegistryEntry = ''myGateway'',
      getChannelPeersInfo = (\<lambda>_. Inr [PeerInfo ''peer0'' ''Org1MSP'']),
      conn_submitTransaction = (\<lambda>_. Inr (Some ''done''))\<rparr>\<close>

definition example_item :: tree_item where
  "example_item = TransactionTreeItem ''assets'' ''createAsset'' ''mychannel'' ''AssetContract''"

definition example_call :: "(string, string) sdk_call" where
  "example_call =
     SubmitTransactionCall (Some ''assets'') ''createAsset'' (Some ''mychannel'') []
       ''AssetContract'' None False []"

definition bad_args_env :: "(string, string) env" where
  "bad_args_env =
     example_env\<lparr>showInputBox := (\<lambda>p d. if p = args_prompt then Some ''arg1'' else Some d)\<rparr>"

definition failing_env :: "(string, string) env" where
  "failing_env =
     example_env\<lparr>conn_submitTransaction :=
       (\<lambda>_. Inl (Thrown ''endorsement failed'' (Endorsements [Endorsement ''peer0 refused''])))\<rparr>"

definition null_env :: "(string, string) env" where
  "null_env = example_env\<lparr>conn_submitTransaction := (\<lambda>_. Inl Unreadable)\<rparr>"

definition custom_env :: "(string, string) env" where
  \<open>custom_env =
     example_env
       \<lparr>showInputBox :=
          (\<lambda>p d. if p = args_prompt then Some ''["a1"]''
                 else if p = transient_prompt then Some ''{"k": "v"}''
                 else Some d),
        showQuickPick := (\<lambda>_ _. Some ''Custom''),
        getChannelPeersInfo :=
          (\<lambda>_. Inr [PeerInfo ''peer0'' ''Org1MSP'', PeerInfo ''peer1'' ''Org2MSP''])\<rparr>\<close>

definition custom_call :: "(string, string) sdk_call" where
  "custom_call =
     SubmitTransactionCall (Some ''assets'') ''createAsset'' (Some ''mychannel'') [''a1'']
       ''AssetContract'' (Some [(''k'', Buffer ''v'')]) True [''peer0'', ''peer1'']"

definition good_args_env :: "(string, string) env" where
  \<open>good_args_env =
     example_env\<lparr>showInputBox := (\<lambda>p d. if p = args_prompt then Some ''["a1"]'' else Some d)\<rparr>\<close>

definition good_args_call :: "(string, string) sdk_call" where
  "good_args_call =
     SubmitTransactionCall (Some ''assets'') ''createAsset'' (Some ''mychannel'') [''a1'']
       ''AssetContract'' None False []"

definition no_peers_env :: "(string, string) env" where
  "no_peers_env = example_env\<lparr>getChannelPeersInfo := (\<lambda>_. Inr [])\<rparr>"

definition transient_env :: "(string, string) env" where
  \<open>transient_env =
     example_env\<lparr>showInputBox :=
       (\<lambda>p d. if p = transient_prompt then Some ''{"k": "v"}'' else Some d)\<rparr>\<close>

definition transient_call :: "(string, string) sdk_call" where
  "transient_call =
     SubmitTransactionCall (Some ''assets'') ''createAsset'' (Some ''mychannel'') []
       ''AssetContract'' (Some [(''k'', Buffer ''v'')]) False []"


definition picked_call :: "(string, string) sdk_call" where
  "picked_call =
     SubmitTransactionCall (Some ''assets'') ''createAsset'' (Some ''mychannel'') []
       ''AssetContract'' None True []"

section \<open>Traces\<close>

lemma fst_emit [simp]: "fst (emit es r) = es @ fst r" by (simp add: emit_def)

lemma snd_emit [simp]: "snd (emit es r) = snd r" by (simp add: emit_def)

lemma emit_emit [simp]: "emit es (emit fs r) = emit (es @ fs) r" by (simp add: emit_def)

lemma emit_pair [simp]: "emit es (fs, out) = (es @ fs, out)" by (simp add: emit_def)

lemma calls_append [simp]: "calls (xs @ ys) = calls xs @ calls ys"
  by (induction xs rule: calls.induct) simp_all

lemma telemetry_append [simp]: "telemetry (xs @ ys) = telemetry xs @ telemetry ys"
  by (induction xs rule: telemetry.induct) simp_all

lemma steps_Nil [simp]: "steps [] = []"
  by (simp add: steps_def)

lemma steps_Cons [simp]:
  "steps (x # xs) = (case step_of x of None \<Rightarrow> steps xs | Some s \<Rightarrow> s # steps xs)"
  by (simp add: steps_def List.map_filter_simps split: option.splits)

lemma steps_append [simp]: "steps (xs @ ys) = steps xs @ steps ys"
  by (induction xs) (simp_all split: option.splits)

lemma in_calls: "c \<in> set (calls es) \<longleftrightarrow> SubmitTransaction c \<in> set es"
  by (induction es rule: calls.induct) auto

lemma in_steps: "x \<in> set es \<Longrightarrow> step_of x = Some s \<Longrightarrow> s \<in> set (steps es)"
  by (induction es) (auto split: option.splits)

lemma not_in_steps: "s \<notin> set (steps es) \<Longrightarrow> step_of x = Some s \<Longrightarrow> x \<notin> set es"
  using in_steps by blast

lemma prompts_differ [simp]: "args_prompt \<noteq> transient_prompt" "transient_prompt \<noteq> args_prompt"
  by (simp_all add: args_prompt_def transient_prompt_def)

lemma report_success_simps [simp]:
  "steps (report_success ev t res) = [Report]"
  "calls (report_success ev t res) = []"
  "telemetry (report_success ev t res) = [action ev @ '' transaction'']"
  by (simp_all add: report_success_def)

lemma endorsement_lines_quiet [simp]:
  "calls (fst (endorsement_lines es)) = []"
  "telemetry (fst (endorsement_lines es)) = []"
  by (induction es rule: endorsement_lines.induct) simp_all

lemma endorsement_lines_steps:
  "steps (fst (endorsement_lines es :: ('v, 'b) run)) =
     replicate (length (fst (endorsement_lines es :: ('v, 'b) run))) Report"
  by (induction es rule: endorsement_lines.induct) simp_all

lemma endorsement_lines_map [simp]:
  "endorsement_lines (map Endorsement ms) =
     (map (\<lambda>m. Log ERROR (Some (''Endorsement failed with: '' @ m)) None) ms, Returned)"
  by (induction ms) simp_all


lemma catch_block_quiet [simp]:
  "calls (fst (catch_block ev error)) = []"
  "telemetry (fst (catch_block ev error)) = []"
  by (simp_all add: catch_block_def split: thrown.splits endorsements.splits)

lemma catch_block_steps:
  "steps (fst (catch_block ev error :: ('v, 'b) run)) =
     replicate (length (fst (catch_block ev error :: ('v, 'b) run))) Report"
  by (simp add: catch_block_def endorsement_lines_steps split: thrown.splits endorsements.splits)


lemma settle_quiet [simp]:
  "calls (fst (settle ev t answer)) = []"
  "telemetry (fst (settle ev t answer)) =
     (case answer of Inr result \<Rightarrow> [action ev @ '' transaction''] | Inl error \<Rightarrow> [])"
  by (simp_all add: settle_def split: sum.splits)

lemma settle_steps:
  "\<exists>n. steps (fst (settle ev t answer)) = replicate n Report"
proof (cases answer)
  case (Inl error)
  then show ?thesis
    using catch_block_steps [of ev error] by (auto simp: settle_def)
next
  case (Inr result)
  then have "steps (fst (settle ev t answer)) = replicate 1 Report"
    by (simp add: settle_def)
  then show ?thesis
    by (rule exI)
qed


section \<open>The shape of a run, stage by stage\<close>

text \<open>
  An event of a later step in the trace of a stage shows that the stage went on to the
  next one; the lemmas below say with which values.
\<close>

lemma call_stage_shape:
  "\<exists>ann. call_stage e ev t a td pts msg =
       emit (ann @ [SubmitTransaction (the_call ev t a td pts)])
         (settle ev t (conn_submitTransaction e (the_call ev t a td pts)))
     \<and> steps ann = [] \<and> calls ann = [] \<and> telemetry ann = []"
proof -
  let ?ann =
    "[WithProgress ''IBM Blockchain Platform Extension'',
      ProgressReport (actioning ev @ '' transaction '' @ transactionName t),
      Log INFO None
        (Some (if length a = 0
           then actioning ev @ '' transaction '' @ transactionName t
             @ '' with no args on channel '' @ template (channelName t) @ msg
           else actioning ev @ '' transaction '' @ transactionName t
             @ '' with args '' @ array_toString (map (ToString e) a)
             @ '' on channel '' @ template (channelName t) @ msg))]
     @ (if getGatewayRegistryEntry e = LOCAL_FABRIC e then [DockerOutputShow] else [])"
  have "call_stage e ev t a td pts msg =
       emit (?ann @ [SubmitTransaction (the_call ev t a td pts)])
         (settle ev t (conn_submitTransaction e (the_call ev t a td pts)))"
    by (cases ev) (simp_all add: call_stage_def the_call_def Let_def)
  moreover have "steps ?ann = []" "calls ?ann = []" "telemetry ?ann = []"
    by simp_all
  ultimately show ?thesis
    by blast
qed

lemma call_stage_steps:
  assumes "x \<in> set (fst (call_stage e ev t a td pts msg))" "step_of x = Some s"
  shows "s = DelegatedCall \<or> s = Report"
proof -
  from call_stage_shape [of e ev t a td pts msg] obtain ann where
    "call_stage e ev t a td pts msg =
       emit (ann @ [SubmitTransaction (the_call ev t a td pts)])
         (settle ev t (conn_submitTransaction e (the_call ev t a td pts)))"
    "steps ann = []"
    by blast
  moreover obtain n where
    "steps (fst (settle ev t (conn_submitTransaction e (the_call ev t a td pts))
                  :: ('a, 'b) run)) = replicate n Report"
    using settle_steps by blast
  ultimately have
    "set (steps (fst (call_stage e ev t a td pts msg))) \<subseteq> {DelegatedCall, Report}"
    by auto
  with in_steps [OF assms] show ?thesis
    by auto
qed

lemma calls_call_stage [simp]:
  "calls (fst (call_stage e ev t a td pts msg)) = [the_call ev t a td pts]"
  using call_stage_shape [of e ev t a td pts msg] by auto

lemma targets_stage_shape:
  assumes "x \<in> set (fst (targets_stage e ev t a td cpi sel))" "step_of x = Some DelegatedCall"
  shows "\<exists>pol pts msg.
      targets_stage e ev t a td cpi sel = emit pol (call_stage e ev t a td pts msg)
    \<and> steps pol = replicate (length pol) ResolvePeerTargeting
    \<and> calls pol = [] \<and> telemetry pol = []
    \<and> (\<forall>m os. ShowQuickPick m os \<notin> set pol)
    \<and> \<not> falsy sel
    \<and> (sel \<noteq> Some (CUSTOM e) \<longrightarrow> pts = [] \<and> pol = [])
    \<and> (sel = Some (CUSTOM e) \<longrightarrow>
         (\<exists>items. showChannelPeersQuickPick e cpi = Some items \<and> items \<noteq> []
            \<and> pts = map data items))"
proof (cases "sel = Some (CUSTOM e)")
  case True
  with assms obtain items where
    items: "showChannelPeersQuickPick e cpi = Some items" "items \<noteq> []" "\<not> falsy sel"
    by (auto simp: targets_stage_def split: if_splits option.splits)
  with True have
    "targets_stage e ev t a td cpi sel =
       emit [ShowChannelPeersQuickPick cpi]
         (call_stage e ev t a td (map data items)
            ('' to peers '' @ array_toString (map data items)))"
    by (simp add: targets_stage_def)
  with items True show ?thesis
    by (intro exI [of _ "[ShowChannelPeersQuickPick cpi]"] exI [of _ "map data items"] exI) simp
next
  case False
  with assms have "\<not> falsy sel"
    by (auto simp: targets_stage_def split: if_splits)
  with False have "targets_stage e ev t a td cpi sel = emit [] (call_stage e ev t a td [] [])"
    by (simp add: targets_stage_def emit_def)
  with False \<open>\<not> falsy sel\<close> show ?thesis
    by (intro exI [of _ "[]"]) simp
qed

lemma targets_stage_steps:
  assumes "x \<in> set (fst (targets_stage e ev t a td cpi sel))"
  shows "x \<noteq> GetChannelPeersInfo ch"
  using assms call_stage_steps [of x e ev t a td _ _ ResolvePeerTargeting]
  by (auto simp: targets_stage_def split: if_splits option.splits)

lemma peers_stage_shape:
  assumes "x \<in> set (fst (peers_stage e conn ev t a td))" "step_of x = Some DelegatedCall"
  shows "\<exists>cpi pol pts msg.
      peers_stage e conn ev t a td =
        emit (GetChannelPeersInfo (channelName t) # pol) (call_stage e ev t a td pts msg)
    \<and> getChannelPeersInfo e (channelName t) = Inr cpi \<and> cpi \<noteq> []
    \<and> steps pol = replicate (length pol) ResolvePeerTargeting
    \<and> calls pol = [] \<and> telemetry pol = []
    \<and> (length cpi = 1 \<longrightarrow> (\<forall>m os. ShowQuickPick m os \<notin> set pol))
    \<and> targets_ok e cpi pts"
proof -
  from assms obtain cpi where
    cpi: "conn" "getChannelPeersInfo e (channelName t) = Inr cpi" "cpi \<noteq> []"
    by (auto simp: peers_stage_def split: if_splits sum.splits)
  let ?sel = "policy e cpi"
  let ?ask = "if length cpi = 1 then [] else [ShowQuickPick policy_prompt [DEFAULT e, CUSTOM e]]"
  from cpi have run:
    "peers_stage e conn ev t a td =
       emit (GetChannelPeersInfo (channelName t) # ?ask) (targets_stage e ev t a td cpi ?sel)"
    by (simp add: peers_stage_def policy_def)
  with assms have "x \<in> set (fst (targets_stage e ev t a td cpi ?sel))"
    by (auto split: if_splits)
  from targets_stage_shape [OF this assms(2)] obtain pol pts msg where
    next_stage: "targets_stage e ev t a td cpi ?sel = emit pol (call_stage e ev t a td pts msg)"
    and pol: "steps pol = replicate (length pol) ResolvePeerTargeting"
      "calls pol = []" "telemetry pol = []" "\<forall>m os. ShowQuickPick m os \<notin> set pol"
    and sel: "\<not> falsy ?sel" "?sel \<noteq> Some (CUSTOM e) \<longrightarrow> pts = [] \<and> pol = []"
      "?sel = Some (CUSTOM e) \<longrightarrow>
         (\<exists>items. showChannelPeersQuickPick e cpi = Some items \<and> items \<noteq> []
            \<and> pts = map data items)"
    by blast
  have "peers_stage e conn ev t a td =
          emit (GetChannelPeersInfo (channelName t) # ?ask @ pol) (call_stage e ev t a td pts msg)"
    by (simp add: run next_stage)
  moreover have "steps (?ask @ pol) = replicate (length (?ask @ pol)) ResolvePeerTargeting"
    using pol by simp
  moreover have "calls (?ask @ pol) = []" "telemetry (?ask @ pol) = []"
    using pol by simp_all
  moreover have "length cpi = 1 \<longrightarrow> (\<forall>m os. ShowQuickPick m os \<notin> set (?ask @ pol))"
    using pol by simp
  moreover have "targets_ok e cpi pts"
    using sel by (auto simp: targets_ok_def)
  ultimately show ?thesis
    using cpi by blast
qed

lemma peers_reached:
  assumes "GetChannelPeersInfo ch \<in> set (fst (peers_stage e conn ev t a td))"
  shows "conn \<and> ch = channelName t"
  using assms targets_stage_steps [of "GetChannelPeersInfo ch" e ev t a td _ _ ch]
  by (auto simp: peers_stage_def split: if_splits sum.splits)

lemma transient_stage_shape:
  assumes "x \<in> set (fst (transient_stage e conn ev t a))" "step_of x = Some s"
    "s = ResolvePeerTargeting \<or> s = DelegatedCall"
  shows "\<exists>td. transient_stage e conn ev t a =
                emit [ShowInputBox transient_prompt ''{}''] (peers_stage e conn ev t a td)
    \<and> x \<in> set (fst (peers_stage e conn ev t a td)) \<and> transient_ok e td"
proof -
  from assms obtain str where str: "showInputBox e transient_prompt ''{}'' = Some str"
    by (auto simp: transient_stage_def split: option.splits)
  show ?thesis
  proof (cases "str = [] \<or> str = ''{}''")
    case True
    with str have run: "transient_stage e conn ev t a =
        emit [ShowInputBox transient_prompt ''{}''] (peers_stage e conn ev t a None)"
      by (auto simp: transient_stage_def)
    moreover from run assms have "x \<in> set (fst (peers_stage e conn ev t a None))"
      by auto
    moreover from str True have "transient_ok e None"
      by (auto simp: transient_ok_def)
    ultimately show ?thesis
      by blast
  next
    case False
    with str assms obtain parsed rewritten where
      ok: "startsWith str ''{''" "endsWith str ''}''" "JSON_parse_object e str = Inr parsed"
        "bufferise e (map fst parsed) (map (\<lambda>(k, v). (k, Parsed v)) parsed) = Inr rewritten"
      by (auto simp: transient_stage_def split: if_splits sum.splits)
    with str False have run: "transient_stage e conn ev t a =
        emit [ShowInputBox transient_prompt ''{}''] (peers_stage e conn ev t a (Some rewritten))"
      by (simp add: transient_stage_def)
    moreover from run assms have "x \<in> set (fst (peers_stage e conn ev t a (Some rewritten)))"
      by auto
    moreover from str False ok have "transient_ok e (Some rewritten)"
      by (auto simp: transient_ok_def)
    ultimately show ?thesis
      by blast
  qed
qed

lemma args_stage_shape:
  assumes "x \<in> set (fst (args_stage e conn ev t))" "step_of x = Some s"
    "s = ResolvePeerTargeting \<or> s = DelegatedCall"
  shows "\<exists>a. args_stage e conn ev t =
                emit [ShowInputBox args_prompt ''[]''] (transient_stage e conn ev t a)
    \<and> x \<in> set (fst (transient_stage e conn ev t a)) \<and> args_ok e a"
  using assms
  by (auto simp: args_stage_def args_ok_def split: option.splits if_splits sum.splits)

lemma transaction_stage_shape:
  assumes "x \<in> set (fst (transaction_stage e conn ev ch sc))" "step_of x = Some s"
    "s \<noteq> ResolveTarget"
  shows "\<exists>t. transaction_stage e conn ev ch sc =
                emit [ShowTransactionQuickPick (''Choose a transaction to '' @ action ev) sc ch]
                  (args_stage e conn ev t)
    \<and> x \<in> set (fst (args_stage e conn ev t)) \<and> picked e ev t
    \<and> smartContract t = sc \<and> channelName t = ch"
  using assms
  by (auto simp: transaction_stage_def picked_def split: option.splits)

lemma contract_stage_shape:
  assumes "x \<in> set (fst (contract_stage e ev))" "step_of x = Some s" "s \<noteq> ResolveTarget"
  shows "\<exists>q m ch sc t chosen. contract_stage e ev =
                emit [ShowClientInstantiatedSmartContractsQuickPick q,
                      ShowTransactionQuickPick m sc ch]
                  (args_stage e True ev t)
    \<and> x \<in> set (fst (args_stage e True ev t)) \<and> picked e ev t
    \<and> showClientInstantiatedSmartContractsQuickPick e
         (''Choose a smart contract to '' @ action ev @ '' a transaction from'') = Some chosen
    \<and> smartContract t = Some (contract_name (data chosen))
    \<and> channelName t = Some (channel (data chosen))"
proof -
  from assms obtain chosen where
    chosen: "showClientInstantiatedSmartContractsQuickPick e
               (''Choose a smart contract to '' @ action ev @ '' a transaction from'') = Some chosen"
    by (auto simp: contract_stage_def split: option.splits)
  let ?ch = "Some (channel (data chosen))" and ?sc = "Some (contract_name (data chosen))"
  from chosen have run:
    "contract_stage e ev =
       emit [ShowClientInstantiatedSmartContractsQuickPick
               (''Choose a smart contract to '' @ action ev @ '' a transaction from'')]
         (transaction_stage e True ev ?ch ?sc)"
    by (simp add: contract_stage_def)
  with assms have "x \<in> set (fst (transaction_stage e True ev ?ch ?sc))"
    by auto
  from transaction_stage_shape [OF this assms(2,3)] obtain t where
    t: "transaction_stage e True ev ?ch ?sc =
          emit [ShowTransactionQuickPick (''Choose a transaction to '' @ action ev) ?sc ?ch]
            (args_stage e True ev t)"
      "x \<in> set (fst (args_stage e True ev t))" "picked e ev t"
      "smartContract t = ?sc" "channelName t = ?ch"
    by blast
  have "contract_stage e ev =
          emit [ShowClientInstantiatedSmartContractsQuickPick
                  (''Choose a smart contract to '' @ action ev @ '' a transaction from''),
                ShowTransactionQuickPick (''Choose a transaction to '' @ action ev) ?sc ?ch]
            (args_stage e True ev t)"
    by (simp add: run t(1))
  with t(2-5) chosen show ?thesis
    by blast
qed

lemma submitTransaction_shape:
  assumes "x \<in> set (fst (submitTransaction e ev ti ch sc))" "step_of x = Some s"
    "s \<noteq> ResolveTarget"
  shows "\<exists>pre conn t.
      submitTransaction e ev ti ch sc =
        emit (Log INFO None (Some (action ev @ ''Transaction'')) # pre) (args_stage e conn ev t)
    \<and> x \<in> set (fst (args_stage e conn ev t))
    \<and> steps pre = replicate (length pre) ResolveTarget
    \<and> calls pre = [] \<and> telemetry pre = []
    \<and> (pre = [] \<longleftrightarrow> (\<exists>cc n chn cn. ti = Some (TransactionTreeItem cc n chn cn)))
    \<and> resolved e ev ti t \<and> located e ev ti ch sc t"
proof (cases "\<exists>cc n chn cn. ti = Some (TransactionTreeItem cc n chn cn)")
  case True
  then obtain cc n chn cn where ti: "ti = Some (TransactionTreeItem cc n chn cn)"
    by blast
  let ?t = "\<lparr>smartContract = Some cc, transactionName = n, channelName = Some chn,
             namespace = cn\<rparr>"
  have run: "submitTransaction e ev ti ch sc =
          emit (Log INFO None (Some (action ev @ ''Transaction'')) # [])
            (args_stage e (getConnection e) ev ?t)"
    by (simp add: submitTransaction_def ti)
  moreover from assms run have "x \<in> set (fst (args_stage e (getConnection e) ev ?t))"
    by auto
  moreover have "resolved e ev ti ?t" "located e ev ti ch sc ?t"
    by (simp_all add: resolved_def located_def ti)
  ultimately show ?thesis
    using True by (intro exI [of _ "[]"] exI [of _ "getConnection e"] exI [of _ ?t]) simp
next
  case False
  let ?start = "Log INFO None (Some (action ev @ ''Transaction'')) :: ('a, 'b) event"
  have other: "resolved e ev ti t = picked e ev t" for t
    using False by (auto simp: resolved_def split: option.splits tree_item.splits)
  show ?thesis
  proof (cases "ti = None \<and> falsy ch \<and> falsy sc")
    case True
    let ?connect = "if getConnection e then [] else [ExecuteCommand_CONNECT_TO_GATEWAY]"
    from True assms have go: "getConnection e \<or> CONNECT_TO_GATEWAY e"
      by (auto simp: submitTransaction_def split: if_splits)
    with True have run:
      "submitTransaction e ev ti ch sc = emit (?start # ?connect) (contract_stage e ev)"
      by (auto simp: submitTransaction_def)
    with assms have "x \<in> set (fst (contract_stage e ev))"
      by (auto split: if_splits)
    from contract_stage_shape [OF this assms(2,3)] obtain q m ch' sc' t chosen where
      t: "contract_stage e ev =
            emit [ShowClientInstantiatedSmartContractsQuickPick q,
                  ShowTransactionQuickPick m sc' ch']
              (args_stage e True ev t)"
        "x \<in> set (fst (args_stage e True ev t))" "picked e ev t"
      and chosen: "showClientInstantiatedSmartContractsQuickPick e
         (''Choose a smart contract to '' @ action ev @ '' a transaction from'') = Some chosen"
        "smartContract t = Some (contract_name (data chosen))"
        "channelName t = Some (channel (data chosen))"
      by blast
    let ?pre = "?connect @ [ShowClientInstantiatedSmartContractsQuickPick q,
                            ShowTransactionQuickPick m sc' ch']"
    have "submitTransaction e ev ti ch sc = emit (?start # ?pre) (args_stage e True ev t)"
      by (simp add: run t(1))
    moreover have "steps ?pre = replicate (length ?pre) ResolveTarget"
      "calls ?pre = []" "telemetry ?pre = []" "?pre \<noteq> []"
      by simp_all
    moreover from True chosen have "located e ev ti ch sc t"
      by (simp add: located_def)
    ultimately show ?thesis
      using t(2,3) False other by blast
  next
    case no_pick: False
    define ch' where "ch' = (case ti of Some (InstantiatedTreeItem _ (l # _)) \<Rightarrow> Some l | _ \<Rightarrow> ch)"
    define sc' where "sc' = (case ti of Some (InstantiatedTreeItem n _) \<Rightarrow> Some n | _ \<Rightarrow> sc)"
    have run:
      "submitTransaction e ev ti ch sc =
         emit [?start] (transaction_stage e (getConnection e) ev ch' sc')"
      and item: "\<forall>n cs. ti = Some (InstantiatedTreeItem n cs) \<longrightarrow> cs \<noteq> []"
      using False no_pick assms
      by (auto simp: submitTransaction_def ch'_def sc'_def
          split: option.splits tree_item.splits list.splits)
    with assms have "x \<in> set (fst (transaction_stage e (getConnection e) ev ch' sc'))"
      by auto
    from transaction_stage_shape [OF this assms(2,3)] obtain t where
      t: "transaction_stage e (getConnection e) ev ch' sc' =
            emit [ShowTransactionQuickPick (''Choose a transaction to '' @ action ev) sc' ch']
              (args_stage e (getConnection e) ev t)"
        "x \<in> set (fst (args_stage e (getConnection e) ev t))" "picked e ev t"
        "smartContract t = sc'" "channelName t = ch'"
      by blast
    let ?pre = "[ShowTransactionQuickPick (''Choose a transaction to '' @ action ev) sc' ch']
                  :: ('a, 'b) event list"
    have "submitTransaction e ev ti ch sc =
            emit (?start # ?pre) (args_stage e (getConnection e) ev t)"
      by (simp add: run t(1))
    moreover have "steps ?pre = replicate (length ?pre) ResolveTarget"
      "calls ?pre = []" "telemetry ?pre = []" "?pre \<noteq> []"
      by simp_all
    moreover from False no_pick item t(4,5) have "located e ev ti ch sc t"
      by (auto simp: located_def ch'_def sc'_def neq_Nil_conv
          split: option.splits tree_item.splits list.splits)
    ultimately show ?thesis
      using t(2,3) False other by blast
  qed
qed

lemma upstream_shape:
  assumes "x \<in> set (fst (submitTransaction e ev ti ch sc))" "step_of x = Some s"
    "s = ResolvePeerTargeting \<or> s = DelegatedCall"
  shows "\<exists>pre conn t a td.
      submitTransaction e ev ti ch sc =
        emit (Log INFO None (Some (action ev @ ''Transaction'')) # pre
              @ [ShowInputBox args_prompt ''[]'', ShowInputBox transient_prompt ''{}''])
          (peers_stage e conn ev t a td)
    \<and> x \<in> set (fst (peers_stage e conn ev t a td))
    \<and> steps pre = replicate (length pre) ResolveTarget
    \<and> calls pre = [] \<and> telemetry pre = []
    \<and> (pre = [] \<longleftrightarrow> (\<exists>cc n chn cn. ti = Some (TransactionTreeItem cc n chn cn)))
    \<and> resolved e ev ti t \<and> located e ev ti ch sc t \<and> args_ok e a \<and> transient_ok e td"
proof -
  from assms(3) have s: "s \<noteq> ResolveTarget"
    by auto
  from submitTransaction_shape [OF assms(1,2) s] obtain pre conn t where
    run1: "submitTransaction e ev ti ch sc =
        emit (Log INFO None (Some (action ev @ ''Transaction'')) # pre) (args_stage e conn ev t)"
    and x1: "x \<in> set (fst (args_stage e conn ev t))"
    and pre: "steps pre = replicate (length pre) ResolveTarget" "calls pre = []"
      "telemetry pre = []"
      "pre = [] \<longleftrightarrow> (\<exists>cc n chn cn. ti = Some (TransactionTreeItem cc n chn cn))"
      "resolved e ev ti t" "located e ev ti ch sc t"
    by blast
  from args_stage_shape [OF x1 assms(2,3)] obtain a where
    run2: "args_stage e conn ev t =
             emit [ShowInputBox args_prompt ''[]''] (transient_stage e conn ev t a)"
    and x2: "x \<in> set (fst (transient_stage e conn ev t a))" and a: "args_ok e a"
    by blast
  from transient_stage_shape [OF x2 assms(2,3)] obtain td where
    run3: "transient_stage e conn ev t a =
             emit [ShowInputBox transient_prompt ''{}''] (peers_stage e conn ev t a td)"
    and x3: "x \<in> set (fst (peers_stage e conn ev t a td))" and td: "transient_ok e td"
    by blast
  have "submitTransaction e ev ti ch sc =
        emit (Log INFO None (Some (action ev @ ''Transaction'')) # pre
              @ [ShowInputBox args_prompt ''[]'', ShowInputBox transient_prompt ''{}''])
          (peers_stage e conn ev t a td)"
    by (simp add: run1 run2 run3)
  with x3 pre a td show ?thesis
    by blast
qed

lemma complete_run:
  assumes "SubmitTransaction c \<in> set (fst (submitTransaction e ev ti ch sc))"
  shows "\<exists>pre pol ann t a td cpi pts.
      submitTransaction e ev ti ch sc =
        emit (Log INFO None (Some (action ev @ ''Transaction'')) # pre
              @ ShowInputBox args_prompt ''[]'' # ShowInputBox transient_prompt ''{}''
              # GetChannelPeersInfo (channelName t) # pol @ ann
              @ [SubmitTransaction (the_call ev t a td pts)])
          (settle ev t (conn_submitTransaction e (the_call ev t a td pts)))
    \<and> steps pre = replicate (length pre) ResolveTarget
    \<and> calls pre = [] \<and> telemetry pre = []
    \<and> (pre = [] \<longleftrightarrow> (\<exists>cc n chn cn. ti = Some (TransactionTreeItem cc n chn cn)))
    \<and> steps pol = replicate (length pol) ResolvePeerTargeting
    \<and> calls pol = [] \<and> telemetry pol = []
    \<and> steps ann = [] \<and> calls ann = [] \<and> telemetry ann = []
    \<and> resolved e ev ti t \<and> located e ev ti ch sc t \<and> args_ok e a \<and> transient_ok e td
    \<and> getChannelPeersInfo e (channelName t) = Inr cpi \<and> cpi \<noteq> []
    \<and> (length cpi = 1 \<longrightarrow> (\<forall>m os. ShowQuickPick m os \<notin> set pol))
    \<and> targets_ok e cpi pts"
proof -
  have step: "step_of (SubmitTransaction c) = Some DelegatedCall"
    by simp
  from upstream_shape [OF assms step] obtain pre conn t a td where
    run1: "submitTransaction e ev ti ch sc =
        emit (Log INFO None (Some (action ev @ ''Transaction'')) # pre
              @ [ShowInputBox args_prompt ''[]'', ShowInputBox transient_prompt ''{}''])
          (peers_stage e conn ev t a td)"
    and x1: "SubmitTransaction c \<in> set (fst (peers_stage e conn ev t a td))"
    and pre: "steps pre = replicate (length pre) ResolveTarget" "calls pre = []"
      "telemetry pre = []"
      "pre = [] \<longleftrightarrow> (\<exists>cc n chn cn. ti = Some (TransactionTreeItem cc n chn cn))"
    and chosen: "resolved e ev ti t" "located e ev ti ch sc t" "args_ok e a" "transient_ok e td"
    by blast
  from peers_stage_shape [OF x1 step] obtain cpi pol pts msg where
    run2: "peers_stage e conn ev t a td =
        emit (GetChannelPeersInfo (channelName t) # pol) (call_stage e ev t a td pts msg)"
    and peers: "getChannelPeersInfo e (channelName t) = Inr cpi" "cpi \<noteq> []"
      "length cpi = 1 \<longrightarrow> (\<forall>m os. ShowQuickPick m os \<notin> set pol)" "targets_ok e cpi pts"
    and pol: "steps pol = replicate (length pol) ResolvePeerTargeting" "calls pol = []"
      "telemetry pol = []"
    by blast
  from call_stage_shape [of e ev t a td pts msg] obtain ann where
    run3: "call_stage e ev t a td pts msg =
       emit (ann @ [SubmitTransaction (the_call ev t a td pts)])
         (settle ev t (conn_submitTransaction e (the_call ev t a td pts)))"
    and ann: "steps ann = []" "calls ann = []" "telemetry ann = []"
    by blast
  have "submitTransaction e ev ti ch sc =
        emit (Log INFO None (Some (action ev @ ''Transaction'')) # pre
              @ ShowInputBox args_prompt ''[]'' # ShowInputBox transient_prompt ''{}''
              # GetChannelPeersInfo (channelName t) # pol @ ann
              @ [SubmitTransaction (the_call ev t a td pts)])
          (settle ev t (conn_submitTransaction e (the_call ev t a td pts)))"
    by (simp add: run1 run2 run3)
  with pre pol ann chosen peers show ?thesis
    by blast
qed

lemma calls_complete:
  assumes "SubmitTransaction c \<in> set (fst (submitTransaction e ev ti ch sc))"
  shows "\<exists>before t a td cpi pts.
      submitTransaction e ev ti ch sc =
        emit (before @ [SubmitTransaction c]) (settle ev t (conn_submitTransaction e c))
    \<and> calls before = [] \<and> telemetry before = []
    \<and> c = the_call ev t a td pts
    \<and> resolved e ev ti t \<and> located e ev ti ch sc t \<and> args_ok e a \<and> transient_ok e td
    \<and> getChannelPeersInfo e (channelName t) = Inr cpi \<and> cpi \<noteq> [] \<and> targets_ok e cpi pts"
proof -
  from complete_run [OF assms] obtain pre pol ann t a td cpi pts where
    run: "submitTransaction e ev ti ch sc =
        emit (Log INFO None (Some (action ev @ ''Transaction'')) # pre
              @ ShowInputBox args_prompt ''[]'' # ShowInputBox transient_prompt ''{}''
              # GetChannelPeersInfo (channelName t) # pol @ ann
              @ [SubmitTransaction (the_call ev t a td pts)])
          (settle ev t (conn_submitTransaction e (the_call ev t a td pts)))"
    and quiet: "calls pre = []" "telemetry pre = []" "calls pol = []" "telemetry pol = []"
      "calls ann = []" "telemetry ann = []"
    and chosen: "resolved e ev ti t" "located e ev ti ch sc t" "args_ok e a" "transient_ok e td"
      "getChannelPeersInfo e (channelName t) = Inr cpi" "cpi \<noteq> []" "targets_ok e cpi pts"
    by blast
  let ?before = "Log INFO None (Some (action ev @ ''Transaction'')) # pre
         @ ShowInputBox args_prompt ''[]'' # ShowInputBox transient_prompt ''{}''
         # GetChannelPeersInfo (channelName t) # pol @ ann"
  from run quiet have "calls (fst (submitTransaction e ev ti ch sc)) = [the_call ev t a td pts]"
    by simp
  with assms have c: "c = the_call ev t a td pts"
    by (simp flip: in_calls)
  have "submitTransaction e ev ti ch sc =
        emit (?before @ [SubmitTransaction c]) (settle ev t (conn_submitTransaction e c))"
    by (simp add: run c)
  moreover have "calls ?before = []" "telemetry ?before = []"
    using quiet by simp_all
  ultimately show ?thesis
    using c chosen by blast
qed

section \<open>The transient data loop\<close>

lemma map_of_middle:
  "k \<notin> fst ` set xs \<Longrightarrow> map_of (xs @ (k, v) # ys) k = Some v"
  by (induction xs) auto

lemma assign_middle:
  "k \<notin> fst ` set xs \<Longrightarrow> k \<notin> fst ` set ys \<Longrightarrow>
   assign k w (xs @ (k, v) # ys) = xs @ (k, w) # ys"
proof -
  have "k \<notin> fst ` set zs \<Longrightarrow> assign k w zs = zs" for zs :: "(string \<times> 'a) list"
    by (induction zs) (auto simp: assign_def)
  then show "k \<notin> fst ` set xs \<Longrightarrow> k \<notin> fst ` set ys \<Longrightarrow> ?thesis"
    by (simp add: assign_def)
qed

lemma bufferise_rest:
  assumes "distinct (map fst seen @ map fst rest)"
    and "bufferise e (map fst rest) (seen @ map (\<lambda>(k, v). (k, Parsed v)) rest) = Inr td"
  shows "\<exists>new. td = seen @ new \<and>
    list_all2 (\<lambda>(k, v) (k', x). k' = k \<and> (\<exists>b. Buffer_from e (Parsed v) = Inr b \<and> x = Buffer b))
      rest new"
  using assms
proof (induction rest arbitrary: seen td)
  case Nil
  then show ?case by simp
next
  case (Cons kv rest)
  obtain k v where kv: "kv = (k, v)"
    by (cases kv)
  from Cons.prems(1) have fresh: "k \<notin> fst ` set seen"
    "k \<notin> fst ` set (map (\<lambda>(k, v). (k, Parsed v :: ('a, 'b) tvalue)) rest)"
    by (auto simp: kv image_iff)
  from fresh(1) have look:
    "map_of (seen @ (k, Parsed v) # map (\<lambda>(k, v). (k, Parsed v)) rest) k = Some (Parsed v)"
    by (rule map_of_middle)
  from Cons.prems(2) look obtain b where
    b: "Buffer_from e (Parsed v) = Inr b"
    and next_keys: "bufferise e (map fst rest)
          (assign k (Buffer b) (seen @ (k, Parsed v) # map (\<lambda>(k, v). (k, Parsed v)) rest))
        = Inr td"
    by (auto simp: kv split: sum.splits)
  from next_keys fresh have
    "bufferise e (map fst rest)
       ((seen @ [(k, Buffer b)]) @ map (\<lambda>(k, v). (k, Parsed v)) rest) = Inr td"
    by (simp add: assign_middle)
  moreover from Cons.prems(1) have "distinct (map fst (seen @ [(k, Buffer b)]) @ map fst rest)"
    by (auto simp: kv)
  ultimately obtain new where
    new: "td = (seen @ [(k, Buffer b)]) @ new"
      "list_all2 (\<lambda>(k, v) (k', x). k' = k \<and> (\<exists>b. Buffer_from e (Parsed v) = Inr b \<and> x = Buffer b))
         rest new"
    using Cons.IH by blast
  with b show ?case
    by (intro exI [of _ "(k, Buffer b) # new"]) (simp add: kv)
qed

section \<open>The example runs\<close>

lemmas command_defs =
  submitTransaction_def contract_stage_def transaction_stage_def args_stage_def
  transient_stage_def peers_stage_def targets_stage_def call_stage_def report_success_def
  catch_block_def settle_def emit_def falsy_def startsWith_def endsWith_def action_def actioning_def
  actioned_def template_def

lemma example_run:
  "submitTransaction example_env False (Some example_item) None None =
     ([Log INFO None (Some ''submitTransaction''),
       ShowInputBox args_prompt ''[]'',
       ShowInputBox transient_prompt ''{}'',
       GetChannelPeersInfo (Some ''mychannel''),
       WithProgress ''IBM Blockchain Platform Extension'',
       ProgressReport ''submitting transaction createAsset'',
       Log INFO None (Some ''submitting transaction createAsset with no args on channel mychannel''),
       SubmitTransaction example_call,
       SendTelemetryEvent ''submit transaction'',
       Log SUCCESS (Some ''Successfully submitted transaction'')
         (Some ''Returned value from createAsset: done''),
       OutputShow],
      Returned)"
  by (simp add: command_defs example_env_def example_item_def example_call_def)

lemma failing_run:
  "submitTransaction failing_env False (Some example_item) None None =
     ([Log INFO None (Some ''submitTransaction''),
       ShowInputBox args_prompt ''[]'',
       ShowInputBox transient_prompt ''{}'',
       GetChannelPeersInfo (Some ''mychannel''),
       WithProgress ''IBM Blockchain Platform Extension'',
       ProgressReport ''submitting transaction createAsset'',
       Log INFO None (Some ''submitting transaction createAsset with no args on channel mychannel''),
       SubmitTransaction example_call,
       Log ERROR (Some ''Error submitting transaction: endorsement failed'') None,
       Log ERROR (Some ''Endorsement failed with: peer0 refused'') None],
      Returned)"
  by (simp add: command_defs failing_env_def example_env_def example_item_def example_call_def)

lemma bad_args_run:
  "submitTransaction bad_args_env False (Some example_item) None None =
     ([Log INFO None (Some ''submitTransaction''),
       ShowInputBox args_prompt ''[]'',
       Log ERROR (Some (''Error with transaction arguments: '' @ args_format_error)) None],
      Returned)"
  by (simp add: command_defs bad_args_env_def example_env_def example_item_def)

lemma good_args_run:
  "submitTransaction good_args_env False (Some example_item) None None =
     ([Log INFO None (Some ''submitTransaction''),
       ShowInputBox args_prompt ''[]'',
       ShowInputBox transient_prompt ''{}'',
       GetChannelPeersInfo (Some ''mychannel''),
       WithProgress ''IBM Blockchain Platform Extension'',
       ProgressReport ''submitting transaction createAsset'',
       Log INFO None (Some ''submitting transaction createAsset with args a1 on channel mychannel''),
       SubmitTransaction good_args_call,
       SendTelemetryEvent ''submit transaction'',
       Log SUCCESS (Some ''Successfully submitted transaction'')
         (Some ''Returned value from createAsset: done''),
       OutputShow],
      Returned)"
  by (simp add: command_defs good_args_env_def example_env_def example_item_def good_args_call_def)

lemma no_peers_run:
  "submitTransaction no_peers_env False (Some example_item) None None =
     ([Log INFO None (Some ''submitTransaction''),
       ShowInputBox args_prompt ''[]'',
       ShowInputBox transient_prompt ''{}'',
       GetChannelPeersInfo (Some ''mychannel''),
       Log ERROR (Some ''No channel peers available to target'') None],
      Returned)"
  by (simp add: command_defs no_peers_env_def example_env_def example_item_def)

lemma transient_run:
  "submitTransaction transient_env False (Some example_item) None None =
     ([Log INFO None (Some ''submitTransaction''),
       ShowInputBox args_prompt ''[]'',
       ShowInputBox transient_prompt ''{}'',
       GetChannelPeersInfo (Some ''mychannel''),
       WithProgress ''IBM Blockchain Platform Extension'',
       ProgressReport ''submitting transaction createAsset'',
       Log INFO None (Some ''submitting transaction createAsset with no args on channel mychannel''),
       SubmitTransaction transient_call,
       SendTelemetryEvent ''submit transaction'',
       Log SUCCESS (Some ''Successfully submitted transaction'')
         (Some ''Returned value from createAsset: done''),
       OutputShow],
      Returned)"
  by (simp add: command_defs transient_env_def example_env_def example_item_def
      transient_call_def assign_def)


lemma picked_run:
  "submitTransaction example_env True None None None =
     ([Log INFO None (Some ''evaluateTransaction''),
       ShowClientInstantiatedSmartContractsQuickPick
         ''Choose a smart contract to evaluate a transaction from'',
       ShowTransactionQuickPick ''Choose a transaction to evaluate''
         (Some ''assets'') (Some ''mychannel''),
       ShowInputBox args_prompt ''[]'',
       ShowInputBox transient_prompt ''{}'',
       GetChannelPeersInfo (Some ''mychannel''),
       WithProgress ''IBM Blockchain Platform Extension'',
       ProgressReport ''evaluating transaction createAsset'',
       Log INFO None (Some ''evaluating transaction createAsset with no args on channel mychannel''),
       SubmitTransaction picked_call,
       SendTelemetryEvent ''evaluate transaction'',
       Log SUCCESS (Some ''Successfully evaluated transaction'')
         (Some ''Returned value from createAsset: done''),
       OutputShow],
      Returned)"
  by (simp add: command_defs example_env_def picked_call_def)

lemma null_run:
  "submitTransaction null_env False (Some example_item) None None =
     ([Log INFO None (Some ''submitTransaction''),
       ShowInputBox args_prompt ''[]'',
       ShowInputBox transient_prompt ''{}'',
       GetChannelPeersInfo (Some ''mychannel''),
       WithProgress ''IBM Blockchain Platform Extension'',
       ProgressReport ''submitting transaction createAsset'',
       Log INFO None (Some ''submitting transaction createAsset with no args on channel mychannel''),
       SubmitTransaction example_call],
      TypeError)"
  by (simp add: command_defs null_env_def example_env_def example_item_def example_call_def)

lemma custom_run:
  "submitTransaction custom_env True (Some (InstantiatedTreeItem ''assets'' [''mychannel'']))
       None None =
     ([Log INFO None (Some ''evaluateTransaction''),
       ShowTransactionQuickPick ''Choose a transaction to evaluate''
         (Some ''assets'') (Some ''mychannel''),
       ShowInputBox args_prompt ''[]'',
       ShowInputBox transient_prompt ''{}'',
       GetChannelPeersInfo (Some ''mychannel''),
       ShowQuickPick policy_prompt [''Default'', ''Custom''],
       ShowChannelPeersQuickPick
         [PeerInfo ''peer0'' ''Org1MSP'', PeerInfo ''peer1'' ''Org2MSP''],
       WithProgress ''IBM Blockchain Platform Extension'',
       ProgressReport ''evaluating transaction createAsset'',
       Log INFO None
         (Some ''evaluating transaction createAsset with args a1 on channel mychannel to peers peer0,peer1''),
       SubmitTransaction custom_call,
       SendTelemetryEvent ''evaluate transaction'',
       Log SUCCESS (Some ''Successfully evaluated transaction'')
         (Some ''Returned value from createAsset: done''),
       OutputShow],
      Returned)"
  by (simp add: command_defs custom_env_def example_env_def custom_call_def assign_def
      policy_prompt_def)

section \<open>The template: stubs by schema type\<close>

lemma typed_parameter_stub:
  assumes "schema p = Some \<lparr>schema_type = Some t\<rparr>"
    and "t \<in> {''string'', ''number'', ''boolean'', ''array''}"
  shows "length (fst (parameter_stub esc p)) = 1 \<and> length (snd (parameter_stub esc p)) = 1"
  using assms by (auto simp: parameter_stub_def Let_def)

lemma untyped_parameter_stub:
  assumes "schema p = None \<or> schema p = Some \<lparr>schema_type = None\<rparr>"
  shows "parameter_stub esc p =
    ([ '' JSON.stringify('' @ remove1 (CHR 0x22) (name p) @ '')'' ],
     [ ''            const '' @ esc (remove1 (CHR 0x22) (name p)) @ '' = {};'' ])"
  using assms by (auto simp: parameter_stub_def Let_def)

section \<open>Properties of the command\<close>

text \<open>
  In every theorem below, \<open>trace\<close> and \<open>outcome\<close> are the calls made by one invocation
  of the command and the way it ended. An event in the trace tells how far the
  invocation went: the arguments prompt was shown when \<open>ShowInputBox args_prompt ''[]''\<close>
  is in the trace, the peers of the channel were asked for when \<open>GetChannelPeersInfo ch\<close>
  is, and the delegated call was made when \<open>SubmitTransaction c\<close> is.
\<close>

subsection \<open>C1: malformed arguments\<close>

text \<open>
  Claim C1. When the arguments prompt is shown and the user types a non-empty string,
  then: if the string does not start with \<^verbatim>\<open>[\<close>, or does not end with \<^verbatim>\<open>]\<close>, or
  fails to parse, the command logs an error about the transaction arguments right after
  the prompt, returns, and never makes the delegated call; and whenever the delegated
  call is made, the string has the bracketed shape and parses, and the call receives
  the parsed list.
\<close>

theorem malformed_arguments_abort:
  assumes "submitTransaction e evaluate treeItem channelName' smartContract' = (trace, outcome)"
    and "ShowInputBox args_prompt ''[]'' \<in> set trace"
    and "showInputBox e args_prompt ''[]'' = Some s"
    and "s \<noteq> []"
  shows "(\<not> startsWith s ''['' \<or> \<not> endsWith s '']'' \<or> isl (JSON_parse_array e s) \<longrightarrow>
            outcome = Returned
          \<and> (\<exists>before error. trace = before @ [ShowInputBox args_prompt ''[]'',
                Log ERROR (Some (''Error with transaction arguments: '' @ error)) None])
          \<and> calls trace = [])
    \<and> (\<forall>c. SubmitTransaction c \<in> set trace \<longrightarrow>
          startsWith s ''['' \<and> endsWith s '']'' \<and> JSON_parse_array e s = Inr (arg_args c))"
proof (intro conjI impI allI)
  let ?run = "submitTransaction e evaluate treeItem channelName' smartContract'"
  let ?x = "ShowInputBox args_prompt ''[]'' :: ('a, 'b) event"
  assume bad: "\<not> startsWith s ''['' \<or> \<not> endsWith s '']'' \<or> isl (JSON_parse_array e s)"
  from assms have "?x \<in> set (fst ?run)" "step_of ?x = Some PromptArguments"
    "PromptArguments \<noteq> ResolveTarget"
    by simp_all
  from submitTransaction_shape [OF this] obtain pre conn t where
    run: "?run = emit (Log INFO None (Some (action evaluate @ ''Transaction'')) # pre)
                   (args_stage e conn evaluate t)"
    and pre: "calls pre = []"
    by blast
  define error where
    "error = (if \<not> startsWith s ''['' \<or> \<not> endsWith s '']'' then args_format_error
              else projl (JSON_parse_array e s))"
  from bad assms(3,4) have
    "args_stage e conn evaluate t =
       ([?x, Log ERROR (Some (''Error with transaction arguments: '' @ error)) None], Returned)"
    by (cases "JSON_parse_array e s") (auto simp: args_stage_def error_def)
  with run assms(1) have
    "trace = (Log INFO None (Some (action evaluate @ ''Transaction'')) # pre)
               @ [?x, Log ERROR (Some (''Error with transaction arguments: '' @ error)) None]"
    and out: "outcome = Returned"
    by simp_all
  then show "outcome = Returned"
    "\<exists>before error. trace = before @ [ShowInputBox args_prompt ''[]'',
        Log ERROR (Some (''Error with transaction arguments: '' @ error)) None]"
    "calls trace = []"
    using pre by (simp, blast, simp)
next
  fix c
  assume "SubmitTransaction c \<in> set trace"
  with assms(1) have
    "SubmitTransaction c \<in> set (fst (submitTransaction e evaluate treeItem channelName' smartContract'))"
    by simp
  from calls_complete [OF this] obtain t a td pts where
    "c = the_call evaluate t a td pts" "args_ok e a"
    by blast
  with assms(3,4) have
    "startsWith s ''['' \<and> endsWith s '']'' \<and> JSON_parse_array e s = Inr (arg_args c)"
    by (auto simp: args_ok_def the_call_def split: if_splits)
  then show "startsWith s ''[''" "endsWith s '']''" "JSON_parse_array e s = Inr (arg_args c)"
    by simp_all
qed

text \<open>
  The user who types \<^verbatim>\<open>arg1\<close> gets the error and no call; the user who types a
  one-element list gets the call, with that list.
\<close>

theorem malformed_arguments_abort_witness:
  "ShowInputBox args_prompt ''[]''
     \<in> set (fst (submitTransaction bad_args_env False (Some example_item) None None))
   \<and> showInputBox bad_args_env args_prompt ''[]'' = Some ''arg1''
   \<and> \<not> startsWith ''arg1'' ''[''
   \<and> snd (submitTransaction bad_args_env False (Some example_item) None None) = Returned
   \<and> calls (fst (submitTransaction bad_args_env False (Some example_item) None None)) = []
   \<and> SubmitTransaction good_args_call
     \<in> set (fst (submitTransaction good_args_env False (Some example_item) None None))
   \<and> JSON_parse_array good_args_env (the (showInputBox good_args_env args_prompt ''[]''))
       = Inr (arg_args good_args_call)"
proof -
  have bad: "showInputBox bad_args_env args_prompt ''[]'' = Some ''arg1''" "''arg1'' \<noteq> []"
    "\<not> startsWith ''arg1'' ''[''"
    by (simp_all add: bad_args_env_def startsWith_def)
  have good: \<open>showInputBox good_args_env args_prompt ''[]'' = Some ''["a1"]''\<close>
    \<open>''["a1"]'' \<noteq> []\<close>
    by (simp_all add: good_args_env_def)
  from malformed_arguments_abort [OF bad_args_run _ bad(1,2)]
    malformed_arguments_abort [OF good_args_run _ good]
    bad good
  show ?thesis
    by (simp add: bad_args_run good_args_run)
qed

subsection \<open>C2: no channel peers\<close>

text \<open>
  Claim C2. When the connection is asked for the peers of the channel and answers with
  the empty list, the command logs the error \<^verbatim>\<open>No channel peers available to target\<close>
  right after that call and returns: the trace holds no peer-targeting prompt (neither
  the policy prompt nor the prompt for the peers) and no delegated call.
\<close>

theorem no_channel_peers_aborts:
  assumes "submitTransaction e evaluate treeItem channelName' smartContract' = (trace, outcome)"
    and "GetChannelPeersInfo ch \<in> set trace"
    and "getChannelPeersInfo e ch = Inr []"
  shows "outcome = Returned
    \<and> (\<exists>before. trace = before @ [GetChannelPeersInfo ch,
          Log ERROR (Some ''No channel peers available to target'') None])
    \<and> (\<forall>m os. ShowQuickPick m os \<notin> set trace)
    \<and> (\<forall>ps. ShowChannelPeersQuickPick ps \<notin> set trace)
    \<and> calls trace = []"
proof -
  let ?run = "submitTransaction e evaluate treeItem channelName' smartContract'"
  let ?x = "GetChannelPeersInfo ch :: ('a, 'b) event"
  from assms have "?x \<in> set (fst ?run)" "step_of ?x = Some ResolvePeerTargeting"
    by simp_all
  from upstream_shape [OF this] obtain pre conn t a td where
    run: "?run =
        emit (Log INFO None (Some (action evaluate @ ''Transaction'')) # pre
              @ [ShowInputBox args_prompt ''[]'', ShowInputBox transient_prompt ''{}''])
          (peers_stage e conn evaluate t a td)"
    and x: "?x \<in> set (fst (peers_stage e conn evaluate t a td))"
    and pre: "steps pre = replicate (length pre) ResolveTarget" "calls pre = []"
    by blast
  from peers_reached [OF x] assms(3) have
    "peers_stage e conn evaluate t a td =
       ([?x, Log ERROR (Some ''No channel peers available to target'') None], Returned)"
    by (simp add: peers_stage_def)
  with run assms(1) have trace:
    "trace = (Log INFO None (Some (action evaluate @ ''Transaction'')) # pre
              @ [ShowInputBox args_prompt ''[]'', ShowInputBox transient_prompt ''{}''])
              @ [?x, Log ERROR (Some ''No channel peers available to target'') None]"
    and "outcome = Returned"
    by simp_all
  moreover have "y \<notin> set pre" if "step_of y = Some ResolvePeerTargeting" for y
    using that pre(1) by (intro not_in_steps [of ResolvePeerTargeting]) auto
  then have "ShowQuickPick m os \<notin> set pre" "ShowChannelPeersQuickPick ps \<notin> set pre" for m os ps
    by simp_all
  ultimately show ?thesis
    using pre(2) by auto
qed

text \<open>A channel with no peers.\<close>

theorem no_channel_peers_aborts_witness:
  "GetChannelPeersInfo (Some ''mychannel'')
     \<in> set (fst (submitTransaction no_peers_env False (Some example_item) None None))
   \<and> getChannelPeersInfo no_peers_env (Some ''mychannel'') = Inr []
   \<and> snd (submitTransaction no_peers_env False (Some example_item) None None) = Returned
   \<and> calls (fst (submitTransaction no_peers_env False (Some example_item) None None)) = []"
proof -
  have none: "getChannelPeersInfo no_peers_env (Some ''mychannel'') = Inr []"
    by (simp add: no_peers_env_def)
  from no_channel_peers_aborts [OF no_peers_run _ none] none show ?thesis
    by (simp add: no_peers_run)
qed

subsection \<open>C3: a failing delegated call\<close>

text \<open>
  Claim C3, as amended. Every invocation makes the delegated call at most once, so
  nothing is retried. When the call is made and throws a value whose message can be
  read, with no endorsements or with a list of endorsements whose messages can be read
  (an \<^verbatim>\<open>Error\<close> of the SDK, an endorsement failure), the command returns normally, and
  the trace ends, right after the call, with the error message of the exception
  followed by one error line for each failed endorsement. The claim as stated (every
  exception is caught and none escapes) does not hold: the handler reads
  \<^verbatim>\<open>error.message\<close> of whatever was thrown, so a rejection with \<^verbatim>\<open>null\<close> or
  \<^verbatim>\<open>undefined\<close> makes the handler itself throw, and that exception leaves the command.
\<close>

theorem delegated_call_failure_is_caught:
  assumes "submitTransaction e evaluate treeItem channelName' smartContract' = (trace, outcome)"
  shows "length (calls trace) \<le> 1 \<and>
    (\<forall>c m ends ms.
       SubmitTransaction c \<in> set trace
       \<and> conn_submitTransaction e c = Inl (Thrown m ends)
       \<and> (ends = NoEndorsements \<and> ms = [] \<or> ends = Endorsements (map Endorsement ms)) \<longrightarrow>
       outcome = Returned \<and>
       (\<exists>before. trace = before @ SubmitTransaction c
          # Log ERROR (Some (''Error '' @ actioning evaluate @ '' transaction: '' @ m)) None
          # map (\<lambda>m. Log ERROR (Some (''Endorsement failed with: '' @ m)) None) ms))"
proof (intro conjI allI impI)
  have made: "\<exists>before t. (trace, outcome) =
        emit (before @ [SubmitTransaction c]) (settle evaluate t (conn_submitTransaction e c))
      \<and> calls before = []"
    if "SubmitTransaction c \<in> set trace" for c
  proof -
    from that assms have
      "SubmitTransaction c
         \<in> set (fst (submitTransaction e evaluate treeItem channelName' smartContract'))"
      by simp
    from calls_complete [OF this] assms show ?thesis
      by metis
  qed
  show "length (calls trace) \<le> 1"
  proof (cases "calls trace")
    case Nil
    then show ?thesis by simp
  next
    case (Cons c cs)
    then have "SubmitTransaction c \<in> set trace"
      by (simp flip: in_calls)
    from made [OF this] obtain before t where
      "trace = (before @ [SubmitTransaction c])
         @ fst (settle evaluate t (conn_submitTransaction e c) :: ('a, 'b) run)"
      "calls before = []"
      by (auto simp: emit_def)
    then have "calls trace = [c]"
      by simp
    then show ?thesis by simp
  qed
  fix c m ends ms
  assume thrown: "SubmitTransaction c \<in> set trace
       \<and> conn_submitTransaction e c = Inl (Thrown m ends)
       \<and> (ends = NoEndorsements \<and> ms = [] \<or> ends = Endorsements (map Endorsement ms))"
  then have "catch_block evaluate (Thrown m ends) =
      (Log ERROR (Some (''Error '' @ actioning evaluate @ '' transaction: '' @ m)) None
       # map (\<lambda>m. Log ERROR (Some (''Endorsement failed with: '' @ m)) None) ms
         :: ('a, 'b) event list, Returned)"
    by (auto simp: catch_block_def)
  with thrown made [of c] obtain before where
    "(trace, outcome) = (before @ SubmitTransaction c
        # Log ERROR (Some (''Error '' @ actioning evaluate @ '' transaction: '' @ m)) None
        # map (\<lambda>m. Log ERROR (Some (''Endorsement failed with: '' @ m)) None) ms, Returned)"
    by (auto simp: settle_def)
  then show "outcome = Returned"
    "\<exists>before. trace = before @ SubmitTransaction c
        # Log ERROR (Some (''Error '' @ actioning evaluate @ '' transaction: '' @ m)) None
        # map (\<lambda>m. Log ERROR (Some (''Endorsement failed with: '' @ m)) None) ms"
    by auto
qed

text \<open>A connection whose call fails with one refused endorsement.\<close>

theorem delegated_call_failure_is_caught_witness:
  "SubmitTransaction example_call
     \<in> set (fst (submitTransaction failing_env False (Some example_item) None None))
   \<and> conn_submitTransaction failing_env example_call
       = Inl (Thrown ''endorsement failed'' (Endorsements (map Endorsement [''peer0 refused''])))
   \<and> snd (submitTransaction failing_env False (Some example_item) None None) = Returned
   \<and> length (calls (fst (submitTransaction failing_env False (Some example_item) None None)))
       \<le> 1"
proof -
  have thrown: "conn_submitTransaction failing_env example_call
      = Inl (Thrown ''endorsement failed'' (Endorsements (map Endorsement [''peer0 refused''])))"
    by (simp add: failing_env_def)
  from delegated_call_failure_is_caught [OF failing_run] thrown show ?thesis
    by (simp add: failing_run)
qed

text \<open>
  A connection whose call rejects with \<^verbatim>\<open>null\<close>: the delegated call is the last entry
  of the trace, no error is reported, and a \<^verbatim>\<open>TypeError\<close> leaves the command.
\<close>

theorem escaping_rejection_counterexample:
  "SubmitTransaction example_call
     \<in> set (fst (submitTransaction null_env False (Some example_item) None None))
   \<and> conn_submitTransaction null_env example_call = Inl Unreadable
   \<and> snd (submitTransaction null_env False (Some example_item) None None) = TypeError
   \<and> snd (submitTransaction null_env False (Some example_item) None None) \<noteq> Returned
   \<and> last (fst (submitTransaction null_env False (Some example_item) None None))
       = SubmitTransaction example_call
   \<and> Report \<notin> set (steps (fst (submitTransaction null_env False (Some example_item) None None)))"
proof -
  have "conn_submitTransaction null_env example_call = Inl Unreadable"
    by (simp add: null_env_def)
  then show ?thesis
    by (simp add: null_run)
qed

subsection \<open>C4: telemetry\<close>

text \<open>
  Claim C4, as amended. When the delegated call is made, the telemetry events of the
  invocation are: exactly one event, \<^verbatim>\<open>evaluate transaction\<close> or
  \<^verbatim>\<open>submit transaction\<close> according to the evaluate flag, if the call returns a
  result; and none if the call throws. The claim as stated (one event whether the call
  succeeds or fails) does not hold: the event is sent after the awaited call, inside the
  \<^verbatim>\<open>try\<close>, so a call that throws skips it.
\<close>

theorem telemetry_only_after_result:
  assumes "submitTransaction e evaluate treeItem channelName' smartContract' = (trace, outcome)"
    and "SubmitTransaction c \<in> set trace"
  shows "telemetry trace =
    (case conn_submitTransaction e c of
       Inr result \<Rightarrow> [(if evaluate then ''evaluate'' else ''submit'') @ '' transaction'']
     | Inl error \<Rightarrow> [])"
proof -
  from assms have
    "SubmitTransaction c \<in> set (fst (submitTransaction e evaluate treeItem channelName' smartContract'))"
    by simp
  from calls_complete [OF this] assms(1) obtain before t where
    "trace = (before @ [SubmitTransaction c])
       @ fst (settle evaluate t (conn_submitTransaction e c) :: ('a, 'b) run)"
    "telemetry before = []"
    by (auto simp: emit_def)
  then show ?thesis
    by (auto simp: action_def split: sum.splits)
qed

text \<open>The example run sends one event.\<close>

theorem telemetry_only_after_result_witness:
  "SubmitTransaction example_call
     \<in> set (fst (submitTransaction example_env False (Some example_item) None None))
   \<and> telemetry (fst (submitTransaction example_env False (Some example_item) None None))
       = [''submit transaction'']"
proof -
  have result: "conn_submitTransaction example_env example_call = Inr (Some ''done'')"
    by (simp add: example_env_def)
  from telemetry_only_after_result [OF example_run, of example_call] result show ?thesis
    by (simp add: example_run)
qed

text \<open>
  The run against the failing connection reaches the delegated call, the call throws,
  and no telemetry event is sent.
\<close>

theorem telemetry_counterexample:
  "SubmitTransaction example_call
     \<in> set (fst (submitTransaction failing_env False (Some example_item) None None))
   \<and> conn_submitTransaction failing_env example_call
       = Inl (Thrown ''endorsement failed'' (Endorsements [Endorsement ''peer0 refused'']))
   \<and> telemetry (fst (submitTransaction failing_env False (Some example_item) None None)) = []
   \<and> length (telemetry (fst (submitTransaction failing_env False (Some example_item) None None)))
       \<noteq> 1"
proof -
  have "conn_submitTransaction failing_env example_call
      = Inl (Thrown ''endorsement failed'' (Endorsements [Endorsement ''peer0 refused'']))"
    by (simp add: failing_env_def)
  then show ?thesis
    by (simp add: failing_run)
qed

subsection \<open>C5: the order of the steps\<close>



subsection \<open>C6: the arguments of the delegated call\<close>

text \<open>
  Claim C6. Every delegated call has its eight arguments in the order contract,
  transaction name, channel, arguments, namespace, transient data, evaluate-only flag,
  peer targets, and the evaluate-only flag is the flag the command was invoked with. Each
  of the other seven is the value the command resolved:
  \<^item> contract and channel are those of the selected transaction tree item; or the name
    and the first channel of the selected instantiated tree item; or those of the smart
    contract the user picked, when the command was given nothing; or the ones the
    command was given;
  \<^item> transaction name and namespace are those of the transaction tree item, or else
    those of the transaction picked for that contract and channel;
  \<^item> the arguments are the empty list when the user typed nothing and the parsed list
    otherwise;
  \<^item> the transient data is undefined when the user typed nothing or \<^verbatim>\<open>{}\<close>, and
    otherwise the parsed object after the loop that turns its values into buffers;
  \<^item> the peer targets are the data of the peers picked when the policy in effect for the
    peers of that channel is the custom one, and the empty list otherwise.
\<close>

theorem delegated_call_arguments:
  assumes "submitTransaction e evaluate treeItem channelName' smartContract' = (trace, outcome)"
    and "SubmitTransaction c \<in> set trace"
  shows "\<exists>contract' txName channel' args namespace' transientData peerTargets.
      c = SubmitTransactionCall contract' txName channel' args namespace' transientData
            evaluate peerTargets
    \<and> (\<forall>cc nm chn cn. treeItem = Some (TransactionTreeItem cc nm chn cn) \<longrightarrow>
          contract' = Some cc \<and> txName = nm \<and> channel' = Some chn \<and> namespace' = cn)
    \<and> (\<forall>nm chans. treeItem = Some (InstantiatedTreeItem nm chans) \<longrightarrow>
          contract' = Some nm
          \<and> (\<exists>label' rest. chans = label' # rest \<and> channel' = Some label'))
    \<and> (treeItem = None \<and> falsy channelName' \<and> falsy smartContract' \<longrightarrow>
          (\<exists>chosen. showClientInstantiatedSmartContractsQuickPick e
                       (''Choose a smart contract to '' @ action evaluate
                        @ '' a transaction from'') = Some chosen
             \<and> contract' = Some (contract_name (data chosen))
             \<and> channel' = Some (channel (data chosen))))
    \<and> (treeItem = None \<and> \<not> (falsy channelName' \<and> falsy smartContract') \<longrightarrow>
          contract' = smartContract' \<and> channel' = channelName')
    \<and> ((\<forall>cc nm chn cn. treeItem \<noteq> Some (TransactionTreeItem cc nm chn cn)) \<longrightarrow>
          (\<exists>chosen. showTransactionQuickPick e (''Choose a transaction to '' @ action evaluate)
                       contract' channel' = Some chosen
             \<and> txName = transaction_name (data chosen)
             \<and> namespace' = contract (data chosen)))
    \<and> (\<exists>s. showInputBox e args_prompt ''[]'' = Some s
          \<and> (if s = [] then args = [] else JSON_parse_array e s = Inr args))
    \<and> (\<exists>s. showInputBox e transient_prompt ''{}'' = Some s
          \<and> (if s = [] \<or> s = ''{}'' then transientData = None
              else \<exists>parsed rewritten. JSON_parse_object e s = Inr parsed
                \<and> bufferise e (map fst parsed) (map (\<lambda>(k, v). (k, Parsed v)) parsed)
                    = Inr rewritten
                \<and> transientData = Some rewritten))
    \<and> (\<exists>peers. getChannelPeersInfo e channel' = Inr peers \<and> peers \<noteq> []
          \<and> (if (if length peers = 1 then Some (DEFAULT e)
                  else showQuickPick e policy_prompt [DEFAULT e, CUSTOM e]) = Some (CUSTOM e)
              then \<exists>items. showChannelPeersQuickPick e peers = Some items \<and> items \<noteq> []
                     \<and> peerTargets = map data items
              else peerTargets = []))"
proof -
  from assms have
    "SubmitTransaction c \<in> set (fst (submitTransaction e evaluate treeItem channelName' smartContract'))"
    by simp
  from calls_complete [OF this] obtain t a td cpi pts where
    c: "c = the_call evaluate t a td pts"
    and target: "resolved e evaluate treeItem t"
      "located e evaluate treeItem channelName' smartContract' t"
    and typed: "args_ok e a" "transient_ok e td"
    and peers: "getChannelPeersInfo e (channelName t) = Inr cpi" "cpi \<noteq> []" "targets_ok e cpi pts"
    by blast
  have tree: "\<forall>cc nm chn cn. treeItem = Some (TransactionTreeItem cc nm chn cn) \<longrightarrow>
          smartContract t = Some cc \<and> transactionName t = nm \<and> channelName t = Some chn
          \<and> namespace t = cn"
    using target(1) by (clarsimp simp: resolved_def)
  have item: "\<forall>nm chans. treeItem = Some (InstantiatedTreeItem nm chans) \<longrightarrow>
          smartContract t = Some nm
          \<and> (\<exists>label' rest. chans = label' # rest \<and> channelName t = Some label')"
    using target(2) by (clarsimp simp: located_def)
  have nothing: "treeItem = None \<and> falsy channelName' \<and> falsy smartContract' \<longrightarrow>
          (\<exists>chosen. showClientInstantiatedSmartContractsQuickPick e
                       (''Choose a smart contract to '' @ action evaluate
                        @ '' a transaction from'') = Some chosen
             \<and> smartContract t = Some (contract_name (data chosen))
             \<and> channelName t = Some (channel (data chosen)))"
    using target(2) by (clarsimp simp: located_def)
  have given: "treeItem = None \<and> \<not> (falsy channelName' \<and> falsy smartContract') \<longrightarrow>
          smartContract t = smartContract' \<and> channelName t = channelName'"
    using target(2) by (clarsimp simp: located_def)
  have "picked e evaluate t"
    if "\<forall>cc nm chn cn. treeItem \<noteq> Some (TransactionTreeItem cc nm chn cn)"
    using that target(1) by (simp add: resolved_def split: option.splits tree_item.splits)
  then have pick: "(\<forall>cc nm chn cn. treeItem \<noteq> Some (TransactionTreeItem cc nm chn cn)) \<longrightarrow>
          (\<exists>chosen. showTransactionQuickPick e (''Choose a transaction to '' @ action evaluate)
                       (smartContract t) (channelName t) = Some chosen
             \<and> transactionName t = transaction_name (data chosen)
             \<and> namespace t = contract (data chosen))"
    by (simp add: picked_def)
  have arguments: "\<exists>s. showInputBox e args_prompt ''[]'' = Some s
          \<and> (if s = [] then a = [] else JSON_parse_array e s = Inr a)"
    using typed(1) unfolding args_ok_def by (elim exE conjE) (rule exI, auto split: if_splits)
  have transient: "\<exists>s. showInputBox e transient_prompt ''{}'' = Some s
          \<and> (if s = [] \<or> s = ''{}'' then td = None
              else \<exists>parsed rewritten. JSON_parse_object e s = Inr parsed
                \<and> bufferise e (map fst parsed) (map (\<lambda>(k, v). (k, Parsed v)) parsed)
                    = Inr rewritten
                \<and> td = Some rewritten)"
    using typed(2) unfolding transient_ok_def
    by (elim exE conjE) (rule exI, auto split: if_splits)
  have targets: "\<exists>peers. getChannelPeersInfo e (channelName t) = Inr peers \<and> peers \<noteq> []
          \<and> (if (if length peers = 1 then Some (DEFAULT e)
                  else showQuickPick e policy_prompt [DEFAULT e, CUSTOM e]) = Some (CUSTOM e)
              then \<exists>items. showChannelPeersQuickPick e peers = Some items \<and> items \<noteq> []
                     \<and> pts = map data items
              else pts = [])"
    using peers unfolding targets_ok_def policy_def by (intro exI [of _ cpi]) simp
  show ?thesis
    apply (rule exI [of _ "smartContract t"])
    apply (rule exI [of _ "transactionName t"])
    apply (rule exI [of _ "channelName t"])
    apply (rule exI [of _ a])
    apply (rule exI [of _ "namespace t"])
    apply (rule exI [of _ td])
    apply (rule exI [of _ pts])
    apply (intro conjI)
            apply (simp add: c the_call_def)
           apply (fact tree)
          apply (fact item)
         apply (fact nothing)
        apply (fact given)
       apply (fact pick)
      apply (fact arguments)
     apply (fact transient)
    apply (fact targets)
    done
qed

text \<open>
  Evaluating a picked transaction passes \<open>True\<close>; submitting the transaction of a selected
  tree item passes \<open>False\<close>, with the chaincode and the name of the item; and evaluating
  on an instantiated tree item with typed arguments, typed transient data and two picked
  peers passes all of them.
\<close>

theorem delegated_call_arguments_witness:
  "SubmitTransaction picked_call
     \<in> set (fst (submitTransaction example_env True None None None))
   \<and> arg_evaluateOnly picked_call = True
   \<and> SubmitTransaction example_call
     \<in> set (fst (submitTransaction example_env False (Some example_item) None None))
   \<and> arg_evaluateOnly example_call = False
   \<and> arg_contract example_call = Some ''assets''
   \<and> arg_txName example_call = ''createAsset''
   \<and> SubmitTransaction custom_call
     \<in> set (fst (submitTransaction custom_env True
                   (Some (InstantiatedTreeItem ''assets'' [''mychannel''])) None None))
   \<and> arg_args custom_call = [''a1'']
   \<and> arg_transientData custom_call = Some [(''k'', Buffer ''v'')]
   \<and> arg_peerTargets custom_call = [''peer0'', ''peer1'']"
  using delegated_call_arguments [OF picked_run, of picked_call]
    delegated_call_arguments [OF example_run, of example_call]
    delegated_call_arguments [OF custom_run, of custom_call]
  by (simp add: picked_run example_run custom_run picked_call_def example_call_def
      custom_call_def)

subsection \<open>C8: transient data values become buffers\<close>

text \<open>
  Claim C8. When the delegated call is made and the user typed, at the transient data
  prompt, a string other than the empty string and \<^verbatim>\<open>{}\<close>, the call receives an
  object with the keys of the parsed object, in their order, and under every key the
  buffer that \<^verbatim>\<open>Buffer.from\<close> makes from the parsed value of that key. The keys of an
  object are distinct.
\<close>

theorem transient_values_become_buffers:
  assumes "submitTransaction e evaluate treeItem channelName' smartContract' = (trace, outcome)"
    and "SubmitTransaction c \<in> set trace"
    and "showInputBox e transient_prompt ''{}'' = Some s"
    and "s \<noteq> []" and "s \<noteq> ''{}''"
    and "JSON_parse_object e s = Inr parsed"
    and "distinct (map fst parsed)"
  shows "\<exists>transientData. arg_transientData c = Some transientData \<and>
    list_all2 (\<lambda>(k, v) (k', x). k' = k \<and> (\<exists>b. Buffer_from e (Parsed v) = Inr b \<and> x = Buffer b))
      parsed transientData"
proof -
  from assms have
    "SubmitTransaction c \<in> set (fst (submitTransaction e evaluate treeItem channelName' smartContract'))"
    by simp
  from calls_complete [OF this] obtain t a td pts where
    "c = the_call evaluate t a td pts" "transient_ok e td"
    by blast
  with assms(3-6) obtain rewritten where
    td: "arg_transientData c = Some rewritten"
    and "bufferise e (map fst parsed) ([] @ map (\<lambda>(k, v). (k, Parsed v)) parsed) = Inr rewritten"
    by (auto simp: the_call_def transient_ok_def)
  with assms(7) bufferise_rest [of "[]" parsed e rewritten] show ?thesis
    by auto
qed

text \<open>One key, one value.\<close>

theorem transient_values_become_buffers_witness:
  \<open>SubmitTransaction transient_call
     \<in> set (fst (submitTransaction transient_env False (Some example_item) None None))
   \<and> showInputBox transient_env transient_prompt ''{}'' = Some ''{"k": "v"}''
   \<and> JSON_parse_object transient_env ''{"k": "v"}'' = Inr [(''k'', ''v'')]
   \<and> distinct (map fst [(''k'', ''v'')])
   \<and> arg_transientData transient_call = Some [(''k'', Buffer ''v'')]\<close>
proof -
  have typed: \<open>showInputBox transient_env transient_prompt ''{}'' = Some ''{"k": "v"}''\<close>
    \<open>''{"k": "v"}'' \<noteq> []\<close> \<open>''{"k": "v"}'' \<noteq> ''{}''\<close>
    \<open>JSON_parse_object transient_env ''{"k": "v"}'' = Inr [(''k'', ''v'')]\<close>
    \<open>distinct (map fst [(''k'', ''v'')])\<close>
    by (simp_all add: transient_env_def example_env_def)
  from transient_values_become_buffers [OF transient_run _ typed] typed show ?thesis
    by (simp add: transient_run transient_call_def)
qed

subsection \<open>C9: the default peer-targeting policy\<close>



subsection \<open>C10: no transient data\<close>

text \<open>
  Claim C10. When the delegated call is made and the user typed the empty string or
  \<^verbatim>\<open>{}\<close> at the transient data prompt, the transient data argument of the call is
  undefined (\<open>None\<close>), not an empty object (\<open>Some []\<close>).
\<close>

theorem empty_transient_data_is_undefined:
  assumes "submitTransaction e evaluate treeItem channelName' smartContract' = (trace, outcome)"
    and "SubmitTransaction c \<in> set trace"
    and "showInputBox e transient_prompt ''{}'' = Some s"
    and "s = [] \<or> s = ''{}''"
  shows "arg_transientData c = None"
proof -
  from assms have
    "SubmitTransaction c \<in> set (fst (submitTransaction e evaluate treeItem channelName' smartContract'))"
    by simp
  from calls_complete [OF this] obtain t a td pts where
    "c = the_call evaluate t a td pts" "transient_ok e td"
    by blast
  with assms(3,4) show ?thesis
    by (auto simp: the_call_def transient_ok_def)
qed

text \<open>The user of the example accepts the default \<^verbatim>\<open>{}\<close>.\<close>

theorem empty_transient_data_is_undefined_witness:
  "SubmitTransaction example_call
     \<in> set (fst (submitTransaction example_env False (Some example_item) None None))
   \<and> showInputBox example_env transient_prompt ''{}'' = Some ''{}''
   \<and> arg_transientData example_call = None"
proof -
  have typed: "showInputBox example_env transient_prompt ''{}'' = Some ''{}''"
    by (simp add: example_env_def)
  from empty_transient_data_is_undefined [OF example_run _ typed] typed show ?thesis
    by (simp add: example_run)
qed

section \<open>Properties of the template\<close>

subsection \<open>C7: a parameter of schema type object\<close>

text \<open>
  Claim C7 says that a parameter of declared schema type string, number, boolean, array
  or object gets a stub: a declaration and an entry of the \<^verbatim>\<open>args\<close> list. The template
  does so for the first four types (\<open>typed_parameter_stub\<close>) and for a parameter with
  no schema type (\<open>untyped_parameter_stub\<close>, the \<^verbatim>\<open>{}\<close> stub), but the chain of
  comparisons has no branch for any other type: for a parameter \<^verbatim>\<open>asset\<close> of declared
  type \<^verbatim>\<open>object\<close> nothing is pushed and nothing is written, and the generated test
  calls the transaction with an empty argument list.
\<close>

theorem object_parameter_gets_no_stub:
  "parameter_stub esc \<lparr>name = ''asset'', schema = Some \<lparr>schema_type = Some ''object''\<rparr>\<rparr>
     = ([], [])
   \<and> parameters_block esc
       \<lparr>transaction_label = ''createAsset'',
        parameters = Some [\<lparr>name = ''asset'', schema = Some \<lparr>schema_type = Some ''object''\<rparr>\<rparr>]\<rparr>
     = [''            // TODO: populate transaction parameters'',
        ''            const args = ['' @ esc [] @ ''];'']"
  by (simp add: parameter_stub_def parameters_block_def)

end
